theory Spec2Isabelle
  imports Main
begin

section \<open>Data model\<close>

text \<open>
  The calendar items of the application (\<^verbatim>\<open>MyEvent\<close> of \<^verbatim>\<open>types.ts\<close>) and
  the event resource of the remote calendar.

  A JavaScript \<^verbatim>\<open>Date\<close> is modelled by its time value, the milliseconds since the epoch,
  as an \<open>int\<close>. The invalid date is outside the model, and so is the limit of
  8640000000000000 milliseconds on either side of the epoch, beyond which a time value
  gives the invalid date and \<^verbatim>\<open>toISOString\<close> throws: the dates of the items
  are taken to lie far enough inside that range for a shift by a day or by the zone
  offset to stay inside it, as the dates of the pickers and of the store do. A date-only string
  \<^verbatim>\<open>YYYY-MM-DD\<close> is modelled by the triple of its fields, and an RFC 3339 timestamp by
  the instant it denotes. The time zone of the browser is a constant offset, the value of
  \<^verbatim>\<open>getTimezoneOffset()\<close> in minutes (positive west of Greenwich), together with
  the zone name of \<^verbatim>\<open>Intl.DateTimeFormat().resolvedOptions().timeZone\<close>.
\<close>

datatype priority = Low | Medium | High

text \<open>
  The optional field \<^verbatim>\<open>googleEventId\<close>: absent (\<^verbatim>\<open>undefined\<close>),
  \<^verbatim>\<open>null\<close> (as the dashboard loads it from a document without the field) or a string.
\<close>

datatype jsid = Undefined | Null | Str string

fun truthy :: "jsid \<Rightarrow> bool" where
  "truthy (Str s) = (s \<noteq> [])"
| "truthy _ = False"

type_synonym civil = "int \<times> int \<times> int"

text \<open>
  \<^verbatim>\<open>MyEvent\<close>, with the optional \<^verbatim>\<open>resource\<close> flattened: a field read through
  \<^verbatim>\<open>event.resource?.f\<close> on a missing resource is \<^verbatim>\<open>undefined\<close>, which is the
  absent value of each field here. The boolean fields are read for truthiness only, and
  the \<^verbatim>\<open>color\<close> of the resource, which no function below reads, is left out. The
  fields \<^verbatim>\<open>id\<close> and \<^verbatim>\<open>end\<close> carry a prime, their names being taken.
\<close>

record myEvent =
  id' :: "string option"
  title :: string
  start :: int
  end' :: int
  allDay :: bool
  isNote :: bool
  content :: "string option"
  priority :: "priority option"
  googleEventId :: jsid
  syncedToGoogle :: bool

text \<open>
  A boundary of a remote event is a \<^verbatim>\<open>dateTime\<close> with an optional zone name or a
  date-only \<^verbatim>\<open>date\<close>. \<open>googleEvent\<close> is the body the translation builds.
\<close>

datatype gwhen = DateTime int "string option" | DateOnly civil

record googleEvent =
  summary :: string
  description :: string
  colorId :: "string option"
  gstart :: gwhen
  gend :: gwhen


text \<open>
  An item of the remote event list, as \<^verbatim>\<open>convertFromGoogleEvent\<close> reads it. The
  provider gives every event an \<^verbatim>\<open>id\<close> and sends either a \<^verbatim>\<open>dateTime\<close> or a
  \<^verbatim>\<open>date\<close> in each boundary.
\<close>

record remoteItem =
  r_id :: string
  r_summary :: "string option"
  r_description :: "string option"
  r_start :: gwhen
  r_end :: gwhen

text \<open>
  A network call: method, URL, bearer token, body and the query window of a list request.
  The body is the event that \<^verbatim>\<open>JSON.stringify\<close> serialises.
\<close>

datatype httpMethod = GET | POST | PATCH | PUT | DELETE

record request =
  httpMethod :: httpMethod
  url :: string
  bearer :: "string option"
  body :: "googleEvent option"
  window :: "(int \<times> int) option"

text \<open>
  The parsed JSON of a response: its \<^verbatim>\<open>id\<close>, \<^verbatim>\<open>items\<close> and
  \<^verbatim>\<open>access_token\<close> fields, where present. A response is a rejected call (no HTTP
  answer) or a status with a body, which is \<open>None\<close> where the body is not JSON.
\<close>

record resultJson =
  j_id :: jsid
  j_items :: "remoteItem list option"
  j_access_token :: "string option"

datatype response = Rejected | Response nat "resultJson option"

text \<open>
  The outcome of a sign-in popup: it is rejected, or it gives a credential with or without
  an access token.
\<close>

datatype popupResult = PopupRejected | PopupCredential "string option"

text \<open>
  The environment: the time zone of the browser, the remote calendar, which answers a
  request depending on the requests it has received before, the clock, the identifiers
  the document store gives to new documents, and the outcome of each sign-in popup.
\<close>

record env =
  tzOffset :: int
  timeZone :: string
  server :: "request list \<Rightarrow> request \<Rightarrow> response"
  now :: int
  autoId :: "nat \<Rightarrow> string"
  signInWithPopup :: "nat \<Rightarrow> popupResult"

section \<open>Dates\<close>

definition msPerDay :: int where
  "msPerDay = 86400000"

definition Day :: "int \<Rightarrow> int" where
  "Day t = t div msPerDay"

definition TimeWithinDay :: "int \<Rightarrow> int" where
  "TimeWithinDay t = t mod msPerDay"

definition getTimezoneOffset :: "env \<Rightarrow> int \<Rightarrow> int" where
  "getTimezoneOffset e t = tzOffset e"

definition LocalTime :: "env \<Rightarrow> int \<Rightarrow> int" where
  "LocalTime e t = t - tzOffset e * 60000"

definition UTC :: "env \<Rightarrow> int \<Rightarrow> int" where
  "UTC e l = l + tzOffset e * 60000"

text \<open>
  The calendar of the \<^verbatim>\<open>Date\<close> object, the proleptic Gregorian calendar: from the
  day number since 1970-01-01 to year, month and day, and back.
\<close>

definition civil_from_days :: "int \<Rightarrow> civil" where
  "civil_from_days z =
     (let z' = z + 719468;
          era = z' div 146097;
          doe = z' - era * 146097;
          yoe = (doe - doe div 1460 + doe div 36524 - doe div 146096) div 365;
          doy = doe - (365 * yoe + yoe div 4 - yoe div 100);
          mp = (5 * doy + 2) div 153;
          d = doy - (153 * mp + 2) div 5 + 1;
          m = (if mp < 10 then mp + 3 else mp - 9);
          y = yoe + era * 400
      in (if m \<le> 2 then y + 1 else y, m, d))"

definition days_from_civil :: "civil \<Rightarrow> int" where
  "days_from_civil c =
     (case c of (y, m, d) \<Rightarrow>
        let y' = (if m \<le> 2 then y - 1 else y);
            era = y' div 400;
            yoe = y' - era * 400;
            doy = (153 * (if m > 2 then m - 3 else m + 9) + 2) div 5 + d - 1;
            doe = yoe * 365 + yoe div 4 - yoe div 100 + doy
        in era * 146097 + doe - 719468)"

text \<open>\<^verbatim>\<open>d.toISOString().split('T')[0]\<close>: the calendar date of the time value in UTC.\<close>

definition isoDate :: "int \<Rightarrow> civil" where
  "isoDate t = civil_from_days (Day t)"

text \<open>\<^verbatim>\<open>d.getDate()\<close>: the day of the month in local time.\<close>

definition getDate :: "env \<Rightarrow> int \<Rightarrow> int" where
  "getDate e t = snd (snd (civil_from_days (Day (LocalTime e t))))"

text \<open>
  \<^verbatim>\<open>d.setDate(dt)\<close>: the day number of the first of the local month plus \<open>dt - 1\<close>,
  with the local time within the day kept, converted back to a time value.
\<close>

definition setDate :: "env \<Rightarrow> int \<Rightarrow> int \<Rightarrow> int" where
  "setDate e t dt =
     (let l = LocalTime e t;
          first = Day l - (getDate e t - 1)
      in UTC e ((first + (dt - 1)) * msPerDay + TimeWithinDay l))"

text \<open>
  \<^verbatim>\<open>new Date(date + 'T' + time)\<close> for a date string and a time of day
  \<open>(h, m, s)\<close>: a date-time without offset is local time.
\<close>

definition newDateLocal :: "env \<Rightarrow> civil \<Rightarrow> int \<times> int \<times> int \<Rightarrow> int" where
  "newDateLocal e c hms =
     (case hms of (h, m, s) \<Rightarrow>
        UTC e (days_from_civil c * msPerDay + ((h * 60 + m) * 60 + s) * 1000))"

section \<open>Translation to the remote representation\<close>

text \<open>\<^verbatim>\<open>x || ''\<close> on an optional string.\<close>

definition orEmpty :: "string option \<Rightarrow> string" where
  "orEmpty x = (case x of None \<Rightarrow> [] | Some s \<Rightarrow> s)"

fun colorMap :: "priority \<Rightarrow> string" where
  "colorMap Low = ''2''"
| "colorMap Medium = ''9''"
| "colorMap High = ''11''"

text \<open>
  \<^verbatim>\<open>convertToGoogleEvent\<close> of the \<^verbatim>\<open>GoogleCalendarService\<close> that offers
  \<^verbatim>\<open>syncEvent\<close>, the service the dashboard and the editor import. The object is built
  with its summary, description and colour, and its two boundaries are filled in by the
  branch taken.
\<close>

definition convertToGoogleEvent :: "env \<Rightarrow> myEvent \<Rightarrow> googleEvent" where
  "convertToGoogleEvent e event =
     (let googleEvent = (\<lambda>s t.
            \<lparr> summary = title event,
              description = orEmpty (content event),
              colorId = Some (colorMap (case priority event of None \<Rightarrow> Medium | Some p \<Rightarrow> p)),
              gstart = s,
              gend = t \<rparr>)
      in if allDay event then
           let startDate = isoDate (start event - getTimezoneOffset e (start event) * 60000);
               endDateObj = setDate e (end' event) (getDate e (end' event) + 1);
               endDate = isoDate (endDateObj - getTimezoneOffset e endDateObj * 60000)
           in googleEvent (DateOnly startDate) (DateOnly endDate)
         else
           googleEvent (DateTime (start event) (Some (timeZone e)))
                       (DateTime (end' event) (Some (timeZone e))))"

text \<open>
  \<^verbatim>\<open>GoogleCalendarService.convertToGoogleEvent\<close> of \<^verbatim>\<open>googleCalendar.ts\<close>, the
  service built on \<^verbatim>\<open>gapi\<close>. The resource has no \<^verbatim>\<open>description\<close> field, so
  the description is the content.
\<close>

definition gapi_convertToGoogleEvent :: "env \<Rightarrow> myEvent \<Rightarrow> googleEvent" where
  "gapi_convertToGoogleEvent e event =
     (let googleEvent =
            \<lparr> summary = title event,
              description = orEmpty (content event),
              colorId = None,
              gstart = DateTime (start event) (Some (timeZone e)),
              gend = DateTime (end' event) (Some (timeZone e)) \<rparr>
      in if allDay event then
           googleEvent \<lparr> gstart := DateOnly (isoDate (start event)),
                         gend := DateOnly (isoDate (end' event)) \<rparr>
         else googleEvent)"

section \<open>State and errors\<close>

text \<open>
  A document of the local store: every field is optional, as the dashboard reads it. A
  partial update is a document too, holding the fields it overwrites.
\<close>

record doc =
  d_title :: "string option"
  d_start :: "int option"
  d_end :: "int option"
  d_content :: "string option"
  d_isNote :: "bool option"
  d_allDay :: "bool option"
  d_priority :: "priority option"
  d_googleEventId :: "string option"

text \<open>
  The state the application reads and writes: the signed-in user, the access token in
  session storage, the sign-in flag of the \<^verbatim>\<open>gapi\<close> service, the token of the
  popup service, the access and refresh tokens in local storage with the number of sign-in
  popups opened, the network calls sent so far (oldest first), and the two collections of
  the local store with the number of documents created and whether the store accepts
  writes.
\<close>

record world =
  currentUser :: bool
  sessionToken :: "string option"
  isSignedIn :: bool
  accessToken :: "string option"
  localAccessToken :: "string option"
  localRefreshToken :: "string option"
  popups :: nat
  sent :: "request list"
  eventsCollection :: "(string \<times> doc) list"
  notesCollection :: "(string \<times> doc) list"
  created :: nat
  storeUp :: bool

text \<open>
  The errors thrown: by the token lookups, by a request (expired access, another failing
  status, a rejected call, a body that is not JSON), by an update without identifier, by
  the sign-in checks of the other services, by a read from a missing field, and by the
  document store.
\<close>

datatype error =
    UserNotAuthenticated
  | TokenMissing
  | AccessExpired
  | ApiError nat
  | FetchFailed
  | JsonSyntaxError
  | NoEventId
  | NotAuthenticated
  | NotConnected
  | TypeError
  | StoreError

section \<open>The calendar service\<close>

text \<open>
  The \<^verbatim>\<open>GoogleCalendarService\<close> with the token in session storage. A request
  needs a signed-in user and a token; a status outside 200 to 299 throws, and the status
  401 removes the token first.
\<close>

definition eventsUrl :: string where
  "eventsUrl = ''https://www.googleapis.com/calendar/v3/calendars/primary/events''"

definition eventUrl :: "string \<Rightarrow> string" where
  "eventUrl gid = eventsUrl @ ''/'' @ gid"

text \<open>\<^verbatim>\<open>sessionStorage.getItem\<close> gives \<^verbatim>\<open>null\<close> or a string; the empty string is falsy.\<close>

definition getAccessToken :: "world \<Rightarrow> error + string" where
  "getAccessToken w =
     (if \<not> currentUser w then Inl UserNotAuthenticated
      else case sessionToken w of
             None \<Rightarrow> Inl TokenMissing
           | Some token \<Rightarrow> if token = [] then Inl TokenMissing else Inr token)"

definition ok :: "nat \<Rightarrow> bool" where
  "ok status = (200 \<le> status \<and> status \<le> 299)"

definition fetch :: "env \<Rightarrow> world \<Rightarrow> request \<Rightarrow> response \<times> world" where
  "fetch e w req = (server e (sent w) req, w \<lparr> sent := sent w @ [req] \<rparr>)"

definition makeRequest ::
  "env \<Rightarrow> world \<Rightarrow> string \<Rightarrow> httpMethod \<Rightarrow> googleEvent option \<Rightarrow> (error + resultJson) \<times> world" where
  "makeRequest e w u m b =
     (case getAccessToken w of
        Inl err \<Rightarrow> (Inl err, w)
      | Inr token \<Rightarrow>
          (case fetch e w \<lparr> httpMethod = m, url = u, bearer = Some token, body = b, window = None \<rparr> of
             (Rejected, w1) \<Rightarrow> (Inl FetchFailed, w1)
           | (Response status js, w1) \<Rightarrow>
               if \<not> ok status then
                 if status = 401 then (Inl AccessExpired, w1 \<lparr> sessionToken := None \<rparr>)
                 else (Inl (ApiError status), w1)
               else (case js of
                       None \<Rightarrow> (Inl JsonSyntaxError, w1)
                     | Some j \<Rightarrow> (Inr j, w1))))"

definition createEvent :: "env \<Rightarrow> world \<Rightarrow> myEvent \<Rightarrow> (error + jsid) \<times> world" where
  "createEvent e w event =
     (let googleEvent = convertToGoogleEvent e event
      in case makeRequest e w eventsUrl POST (Some googleEvent) of
           (Inl err, w1) \<Rightarrow> (Inl err, w1)
         | (Inr result, w1) \<Rightarrow> (Inr (j_id result), w1))"

definition deleteEvent :: "env \<Rightarrow> world \<Rightarrow> string \<Rightarrow> (error + unit) \<times> world" where
  "deleteEvent e w gid =
     (case makeRequest e w (eventUrl gid) DELETE None of
        (Inl err, w1) \<Rightarrow> (Inl err, w1)
      | (Inr result, w1) \<Rightarrow> (Inr (), w1))"

definition updateEvent :: "env \<Rightarrow> world \<Rightarrow> myEvent \<Rightarrow> (error + unit) \<times> world" where
  "updateEvent e w event =
     (case googleEventId event of
        Str gid \<Rightarrow>
          if gid = [] then (Inl NoEventId, w)
          else
            let googleEvent = convertToGoogleEvent e event
            in (case makeRequest e w (eventUrl gid) PATCH (Some googleEvent) of
                  (Inl err, w1) \<Rightarrow> (Inl err, w1)
                | (Inr result, w1) \<Rightarrow> (Inr (), w1))
      | _ \<Rightarrow> (Inl NoEventId, w))"

text \<open>
  \<^verbatim>\<open>syncEvent\<close> returns the identifier, or \<^verbatim>\<open>null\<close> when a call threw.
\<close>

definition syncEvent :: "env \<Rightarrow> world \<Rightarrow> myEvent \<Rightarrow> jsid \<times> world" where
  "syncEvent e w event =
     (if \<not> truthy (googleEventId event) then
        (case createEvent e w event of
           (Inl err, w1) \<Rightarrow> (Null, w1)
         | (Inr gid, w1) \<Rightarrow> (gid, w1))
      else
        (case updateEvent e w event of
           (Inl err, w1) \<Rightarrow> (Null, w1)
         | (Inr u, w1) \<Rightarrow> (googleEventId event, w1)))"

section \<open>The calendar service with token renewal\<close>

text \<open>
  The second \<^verbatim>\<open>GoogleCalendarService\<close>: its \<^verbatim>\<open>convertToGoogleEvent\<close> is the
  same text as above. It keeps its tokens in local storage, checks them before an
  operation, and reads the access token from local storage or else from session storage.
  The form of the token request (client id, refresh token, grant type) is not recorded in
  the request.
\<close>

definition calendarUrl :: string where
  "calendarUrl = ''https://www.googleapis.com/calendar/v3/calendars/primary''"

definition tokenUrl :: string where
  "tokenUrl = ''https://oauth2.googleapis.com/token''"

definition present :: "string option \<Rightarrow> bool" where
  "present x = (case x of None \<Rightarrow> False | Some s \<Rightarrow> s \<noteq> [])"

definition requestNewTokens :: "env \<Rightarrow> world \<Rightarrow> bool \<times> world" where
  "requestNewTokens e w =
     (if \<not> currentUser w then (False, w)
      else
        let w1 = w \<lparr> popups := Suc (popups w) \<rparr>
        in case signInWithPopup e (popups w) of
             PopupRejected \<Rightarrow> (False, w1)
           | PopupCredential None \<Rightarrow> (False, w1)
           | PopupCredential (Some token) \<Rightarrow>
               if token = [] then (False, w1)
               else (True, w1 \<lparr> localAccessToken := Some token \<rparr>))"

text \<open>\<^verbatim>\<open>localStorage.setItem\<close> stores the string of its argument.\<close>

definition refreshAccessToken :: "env \<Rightarrow> world \<Rightarrow> string \<Rightarrow> bool \<times> world" where
  "refreshAccessToken e w refreshToken =
     (case fetch e w \<lparr> httpMethod = POST, url = tokenUrl, bearer = None, body = None,
                       window = None \<rparr> of
        (Response status (Some data), w1) \<Rightarrow>
          if ok status then
            (True, w1 \<lparr> localAccessToken :=
                         Some (case j_access_token data of None \<Rightarrow> ''undefined'' | Some t \<Rightarrow> t) \<rparr>)
          else requestNewTokens e (w1 \<lparr> localAccessToken := None, localRefreshToken := None \<rparr>)
      | (other, w1) \<Rightarrow>
          requestNewTokens e (w1 \<lparr> localAccessToken := None, localRefreshToken := None \<rparr>))"

definition renewToken :: "env \<Rightarrow> world \<Rightarrow> bool \<times> world" where
  "renewToken e w =
     (case localRefreshToken w of
        None \<Rightarrow> requestNewTokens e w
      | Some refreshToken \<Rightarrow>
          if refreshToken = [] then requestNewTokens e w
          else refreshAccessToken e w refreshToken)"

definition ensureValidToken :: "env \<Rightarrow> world \<Rightarrow> bool \<times> world" where
  "ensureValidToken e w =
     (if \<not> present (localAccessToken w) \<and> \<not> present (localRefreshToken w)
      then requestNewTokens e w
      else
        case localAccessToken w of
          None \<Rightarrow> renewToken e w
        | Some token \<Rightarrow>
            if token = [] then renewToken e w
            else
              (case fetch e w \<lparr> httpMethod = GET, url = calendarUrl, bearer = Some token,
                               body = None, window = None \<rparr> of
                 (Rejected, w1) \<Rightarrow> (False, w1)
               | (Response status js, w1) \<Rightarrow>
                   if ok status then (True, w1) else renewToken e w1))"

definition stored_getAccessToken :: "world \<Rightarrow> error + string" where
  "stored_getAccessToken w =
     (if present (localAccessToken w) then
        (case localAccessToken w of Some token \<Rightarrow> Inr token | None \<Rightarrow> Inl TokenMissing)
      else
        (case sessionToken w of
           None \<Rightarrow> Inl TokenMissing
         | Some token \<Rightarrow> if token = [] then Inl TokenMissing else Inr token))"

definition stored_makeRequest ::
  "env \<Rightarrow> world \<Rightarrow> string \<Rightarrow> httpMethod \<Rightarrow> googleEvent option \<Rightarrow> (error + resultJson) \<times> world" where
  "stored_makeRequest e w u m b =
     (case stored_getAccessToken w of
        Inl err \<Rightarrow> (Inl err, w)
      | Inr token \<Rightarrow>
          (case fetch e w \<lparr> httpMethod = m, url = u, bearer = Some token, body = b, window = None \<rparr> of
             (Rejected, w1) \<Rightarrow> (Inl FetchFailed, w1)
           | (Response status js, w1) \<Rightarrow>
               if \<not> ok status then
                 if status = 401
                 then (Inl AccessExpired, w1 \<lparr> localAccessToken := None, sessionToken := None \<rparr>)
                 else (Inl (ApiError status), w1)
               else (case js of
                       None \<Rightarrow> (Inl JsonSyntaxError, w1)
                     | Some j \<Rightarrow> (Inr j, w1))))"

definition stored_createEvent :: "env \<Rightarrow> world \<Rightarrow> myEvent \<Rightarrow> (error + jsid) \<times> world" where
  "stored_createEvent e w event =
     (let googleEvent = convertToGoogleEvent e event
      in case stored_makeRequest e w eventsUrl POST (Some googleEvent) of
           (Inl err, w1) \<Rightarrow> (Inl err, w1)
         | (Inr result, w1) \<Rightarrow> (Inr (j_id result), w1))"

definition stored_deleteEvent :: "env \<Rightarrow> world \<Rightarrow> string \<Rightarrow> (error + unit) \<times> world" where
  "stored_deleteEvent e w gid =
     (case ensureValidToken e w of
        (False, w0) \<Rightarrow> (Inl NotConnected, w0)
      | (True, w0) \<Rightarrow>
          (case stored_makeRequest e w0 (eventUrl gid) DELETE None of
             (Inl err, w1) \<Rightarrow> (Inl err, w1)
           | (Inr result, w1) \<Rightarrow> (Inr (), w1)))"

definition stored_updateEvent :: "env \<Rightarrow> world \<Rightarrow> myEvent \<Rightarrow> (error + unit) \<times> world" where
  "stored_updateEvent e w event =
     (case ensureValidToken e w of
        (False, w0) \<Rightarrow> (Inl NotConnected, w0)
      | (True, w0) \<Rightarrow>
          (case googleEventId event of
             Str gid \<Rightarrow>
               if gid = [] then (Inl NoEventId, w0)
               else
                 let googleEvent = convertToGoogleEvent e event
                 in (case stored_makeRequest e w0 (eventUrl gid) PATCH (Some googleEvent) of
                       (Inl err, w1) \<Rightarrow> (Inl err, w1)
                     | (Inr result, w1) \<Rightarrow> (Inr (), w1))
           | _ \<Rightarrow> (Inl NoEventId, w0)))"

text \<open>
  \<^verbatim>\<open>syncEvent\<close> throws when the token check fails; a failure of the call itself is
  caught and gives \<^verbatim>\<open>null\<close>.
\<close>

definition stored_syncEvent :: "env \<Rightarrow> world \<Rightarrow> myEvent \<Rightarrow> (error + jsid) \<times> world" where
  "stored_syncEvent e w event =
     (case ensureValidToken e w of
        (False, w0) \<Rightarrow> (Inl NotConnected, w0)
      | (True, w0) \<Rightarrow>
          if \<not> truthy (googleEventId event) then
            (case stored_createEvent e w0 event of
               (Inl err, w1) \<Rightarrow> (Inr Null, w1)
             | (Inr gid, w1) \<Rightarrow> (Inr gid, w1))
          else
            (case stored_updateEvent e w0 event of
               (Inl err, w1) \<Rightarrow> (Inr Null, w1)
             | (Inr u, w1) \<Rightarrow> (Inr (googleEventId event), w1)))"

section \<open>Reading remote events\<close>

text \<open>\<^verbatim>\<open>x || dflt\<close> on an optional string: the empty string is falsy.\<close>

definition orElse :: "string option \<Rightarrow> string \<Rightarrow> string" where
  "orElse x dflt = (case x of None \<Rightarrow> dflt | Some s \<Rightarrow> if s = [] then dflt else s)"

text \<open>
  \<^verbatim>\<open>convertFromGoogleEvent\<close>, the same text in every service that lists events.
\<close>

definition convertFromGoogleEvent :: "env \<Rightarrow> remoteItem \<Rightarrow> myEvent" where
  "convertFromGoogleEvent e g =
     (let start = (case r_start g of
                     DateTime t z \<Rightarrow> t
                   | DateOnly d \<Rightarrow> newDateLocal e d (0, 0, 0));
          end = (case r_end g of
                   DateTime t z \<Rightarrow> t
                 | DateOnly d \<Rightarrow> newDateLocal e d (23, 59, 59))
      in \<lparr> id' = Some (r_id g),
           title = orElse (r_summary g) ''Untitled Event'',
           start = start,
           end' = end,
           allDay = (case r_start g of DateTime t z \<Rightarrow> False | DateOnly d \<Rightarrow> True),
           isNote = False,
           content = Some (orElse (r_description g) []),
           priority = None,
           googleEventId = Str (r_id g),
           syncedToGoogle = True \<rparr>)"

text \<open>
  The window of a list request runs from one month before now to two months after:
  \<^verbatim>\<open>d.setMonth(d.getMonth() + k)\<close>.
\<close>

definition getFullYear :: "env \<Rightarrow> int \<Rightarrow> int" where
  "getFullYear e t = fst (civil_from_days (Day (LocalTime e t)))"

definition getMonth :: "env \<Rightarrow> int \<Rightarrow> int" where
  "getMonth e t = fst (snd (civil_from_days (Day (LocalTime e t)))) - 1"

definition MakeDay :: "int \<Rightarrow> int \<Rightarrow> int \<Rightarrow> int" where
  "MakeDay y m dt = days_from_civil (y + m div 12, m mod 12 + 1, 1) + dt - 1"

definition setMonth :: "env \<Rightarrow> int \<Rightarrow> int \<Rightarrow> int" where
  "setMonth e t m =
     UTC e (MakeDay (getFullYear e t) m (getDate e t) * msPerDay + TimeWithinDay (LocalTime e t))"

definition syncWindow :: "env \<Rightarrow> int \<times> int" where
  "syncWindow e =
     (let startDate = setMonth e (now e) (getMonth e (now e) - 1);
          endDate = setMonth e (now e) (getMonth e (now e) + 2)
      in (startDate, endDate))"

section \<open>Batch reconciliation\<close>

text \<open>
  The second loop of every \<^verbatim>\<open>syncEvents\<close>: a fetched event is pushed unless some
  element of the list built so far carries the same \<^verbatim>\<open>googleEventId\<close>
  (compared with \<^verbatim>\<open>===\<close>).
\<close>

fun mergeGoogleEvents :: "myEvent list \<Rightarrow> myEvent list \<Rightarrow> myEvent list" where
  "mergeGoogleEvents syncedEvents [] = syncedEvents"
| "mergeGoogleEvents syncedEvents (g # gs) =
     (let existsLocally = list_ex (\<lambda>local. googleEventId local = googleEventId g) syncedEvents
      in if \<not> existsLocally then mergeGoogleEvents (syncedEvents @ [g]) gs
         else mergeGoogleEvents syncedEvents gs)"

subsection \<open>The service of \<^verbatim>\<open>googleCalendar.ts\<close>, built on \<^verbatim>\<open>gapi\<close>\<close>

text \<open>
  \<^verbatim>\<open>gapi.client.request\<close> rejects when the call fails or the status is not a
  success; its \<^verbatim>\<open>result\<close> is \<^verbatim>\<open>false\<close> where the body is not JSON, and
  a field read from \<^verbatim>\<open>false\<close> is \<^verbatim>\<open>undefined\<close>.
\<close>

definition gapi_request :: "env \<Rightarrow> world \<Rightarrow> request \<Rightarrow> (error + resultJson option) \<times> world" where
  "gapi_request e w req =
     (case fetch e w req of
        (Rejected, w1) \<Rightarrow> (Inl FetchFailed, w1)
      | (Response status js, w1) \<Rightarrow>
          if ok status then (Inr js, w1) else (Inl (ApiError status), w1))"

definition gapi_createEvent :: "env \<Rightarrow> world \<Rightarrow> myEvent \<Rightarrow> (error + jsid) \<times> world" where
  "gapi_createEvent e w event =
     (if \<not> isSignedIn w then (Inl NotAuthenticated, w)
      else
        let googleEvent = gapi_convertToGoogleEvent e event
        in case gapi_request e w \<lparr> httpMethod = POST, url = eventsUrl, bearer = None,
                                     body = Some googleEvent, window = None \<rparr> of
             (Inl err, w1) \<Rightarrow> (Inl err, w1)
           | (Inr None, w1) \<Rightarrow> (Inr Undefined, w1)
           | (Inr (Some result), w1) \<Rightarrow> (Inr (j_id result), w1))"

definition gapi_updateEvent :: "env \<Rightarrow> world \<Rightarrow> string \<Rightarrow> myEvent \<Rightarrow> (error + unit) \<times> world" where
  "gapi_updateEvent e w eventId event =
     (if \<not> isSignedIn w then (Inl NotAuthenticated, w)
      else
        let googleEvent = gapi_convertToGoogleEvent e event
        in case gapi_request e w \<lparr> httpMethod = PUT, url = eventUrl eventId, bearer = None,
                                     body = Some googleEvent, window = None \<rparr> of
             (Inl err, w1) \<Rightarrow> (Inl err, w1)
           | (Inr result, w1) \<Rightarrow> (Inr (), w1))"

definition gapi_getEvents :: "env \<Rightarrow> world \<Rightarrow> int \<times> int \<Rightarrow> (error + myEvent list) \<times> world" where
  "gapi_getEvents e w period =
     (if \<not> isSignedIn w then (Inl NotAuthenticated, w)
      else
        case gapi_request e w \<lparr> httpMethod = GET, url = eventsUrl, bearer = None,
                                  body = None, window = Some period \<rparr> of
          (Inl err, w1) \<Rightarrow> (Inl err, w1)
        | (Inr None, w1) \<Rightarrow> (Inl TypeError, w1)
        | (Inr (Some result), w1) \<Rightarrow>
            (case j_items result of
               None \<Rightarrow> (Inl TypeError, w1)
             | Some items \<Rightarrow> (Inr (map (convertFromGoogleEvent e) items), w1)))"

text \<open>One round of the first loop: the element pushed for a local item.\<close>

definition gapi_syncLocal :: "env \<Rightarrow> world \<Rightarrow> myEvent \<Rightarrow> myEvent \<times> world" where
  "gapi_syncLocal e w localEvent =
     (if isNote localEvent then (localEvent, w)
      else if truthy (googleEventId localEvent) then
        (case googleEventId localEvent of
           Str gid \<Rightarrow>
             (case gapi_updateEvent e w gid localEvent of
                (Inl err, w1) \<Rightarrow> (localEvent, w1)
              | (Inr u, w1) \<Rightarrow> (localEvent \<lparr> googleEventId := Str gid \<rparr>, w1))
         | _ \<Rightarrow> (localEvent, w))
      else
        (case gapi_createEvent e w localEvent of
           (Inl err, w1) \<Rightarrow> (localEvent, w1)
         | (Inr gid, w1) \<Rightarrow> (localEvent \<lparr> googleEventId := gid \<rparr>, w1)))"

fun gapi_syncLocals :: "env \<Rightarrow> world \<Rightarrow> myEvent list \<Rightarrow> myEvent list \<times> world" where
  "gapi_syncLocals e w [] = ([], w)"
| "gapi_syncLocals e w (localEvent # rest) =
     (case gapi_syncLocal e w localEvent of
        (pushed, w1) \<Rightarrow>
          (case gapi_syncLocals e w1 rest of
             (syncedEvents, w2) \<Rightarrow> (pushed # syncedEvents, w2)))"

definition gapi_syncEvents :: "env \<Rightarrow> world \<Rightarrow> myEvent list \<Rightarrow> (error + myEvent list) \<times> world" where
  "gapi_syncEvents e w localEvents =
     (if \<not> isSignedIn w then (Inl NotAuthenticated, w)
      else
        case gapi_getEvents e w (syncWindow e) of
          (Inl err, w1) \<Rightarrow> (Inl err, w1)
        | (Inr googleEvents, w1) \<Rightarrow>
            (case gapi_syncLocals e w1 localEvents of
               (syncedEvents, w2) \<Rightarrow> (Inr (mergeGoogleEvents syncedEvents googleEvents), w2)))"

subsection \<open>\<^verbatim>\<open>WorkingGoogleCalendarService\<close>\<close>

definition working_makeRequest ::
  "env \<Rightarrow> world \<Rightarrow> request \<Rightarrow> (error + resultJson) \<times> world" where
  "working_makeRequest e w req =
     (case accessToken w of
        None \<Rightarrow> (Inl NotAuthenticated, w)
      | Some token \<Rightarrow>
          if token = [] then (Inl NotAuthenticated, w)
          else
            (case fetch e w (req \<lparr> bearer := Some token \<rparr>) of
               (Rejected, w1) \<Rightarrow> (Inl FetchFailed, w1)
             | (Response status js, w1) \<Rightarrow>
                 if \<not> ok status then (Inl (ApiError status), w1)
                 else (case js of
                         None \<Rightarrow> (Inl JsonSyntaxError, w1)
                       | Some j \<Rightarrow> (Inr j, w1))))"

definition working_convertToGoogleEvent :: "env \<Rightarrow> myEvent \<Rightarrow> googleEvent" where
  "working_convertToGoogleEvent e event =
     (let googleEvent =
            \<lparr> summary = title event,
              description = orEmpty (content event),
              colorId = None,
              gstart = DateTime (start event) (Some (timeZone e)),
              gend = DateTime (end' event) (Some (timeZone e)) \<rparr>
      in if allDay event then
           googleEvent \<lparr> gstart := DateOnly (isoDate (start event)),
                         gend := DateOnly (isoDate (end' event)) \<rparr>
         else googleEvent)"

definition working_createEvent :: "env \<Rightarrow> world \<Rightarrow> myEvent \<Rightarrow> (error + jsid) \<times> world" where
  "working_createEvent e w event =
     (let googleEvent = working_convertToGoogleEvent e event
      in case working_makeRequest e w \<lparr> httpMethod = POST, url = eventsUrl, bearer = None,
                                         body = Some googleEvent, window = None \<rparr> of
           (Inl err, w1) \<Rightarrow> (Inl err, w1)
         | (Inr result, w1) \<Rightarrow> (Inr (j_id result), w1))"

definition working_getEvents :: "env \<Rightarrow> world \<Rightarrow> int \<times> int \<Rightarrow> (error + myEvent list) \<times> world" where
  "working_getEvents e w period =
     (case working_makeRequest e w \<lparr> httpMethod = GET, url = eventsUrl, bearer = None,
                                      body = None, window = Some period \<rparr> of
        (Inl err, w1) \<Rightarrow> (Inl err, w1)
      | (Inr result, w1) \<Rightarrow>
          (case j_items result of
             None \<Rightarrow> (Inr [], w1)
           | Some items \<Rightarrow> (Inr (map (convertFromGoogleEvent e) items), w1)))"

definition working_syncLocal :: "env \<Rightarrow> world \<Rightarrow> myEvent \<Rightarrow> myEvent \<times> world" where
  "working_syncLocal e w localEvent =
     (if \<not> truthy (googleEventId localEvent) then
        (case working_createEvent e w localEvent of
           (Inl err, w1) \<Rightarrow> (localEvent, w1)
         | (Inr gid, w1) \<Rightarrow> (localEvent \<lparr> googleEventId := gid, syncedToGoogle := True \<rparr>, w1))
      else (localEvent, w))"

fun working_syncLocals :: "env \<Rightarrow> world \<Rightarrow> myEvent list \<Rightarrow> myEvent list \<times> world" where
  "working_syncLocals e w [] = ([], w)"
| "working_syncLocals e w (localEvent # rest) =
     (case working_syncLocal e w localEvent of
        (pushed, w1) \<Rightarrow>
          (case working_syncLocals e w1 rest of
             (syncedEvents, w2) \<Rightarrow> (pushed # syncedEvents, w2)))"

definition working_syncEvents :: "env \<Rightarrow> world \<Rightarrow> myEvent list \<Rightarrow> (error + myEvent list) \<times> world" where
  "working_syncEvents e w localEvents =
     (case working_getEvents e w (syncWindow e) of
        (Inl err, w1) \<Rightarrow> (Inl err, w1)
      | (Inr googleEvents, w1) \<Rightarrow>
          (case working_syncLocals e w1 localEvents of
             (syncedEvents, w2) \<Rightarrow> (Inr (mergeGoogleEvents syncedEvents googleEvents), w2)))"

section \<open>The local store\<close>

definition getCollection :: "world \<Rightarrow> string \<Rightarrow> (string \<times> doc) list" where
  "getCollection w collectionName =
     (if collectionName = ''events'' then eventsCollection w
      else if collectionName = ''notes'' then notesCollection w
      else [])"

definition setCollection :: "world \<Rightarrow> string \<Rightarrow> (string \<times> doc) list \<Rightarrow> world" where
  "setCollection w collectionName docs =
     (if collectionName = ''events'' then w \<lparr> eventsCollection := docs \<rparr>
      else if collectionName = ''notes'' then w \<lparr> notesCollection := docs \<rparr>
      else w)"

definition mergeDoc :: "doc \<Rightarrow> doc \<Rightarrow> doc" where
  "mergeDoc old patch =
     \<lparr> d_title = (case d_title patch of None \<Rightarrow> d_title old | Some x \<Rightarrow> Some x),
       d_start = (case d_start patch of None \<Rightarrow> d_start old | Some x \<Rightarrow> Some x),
       d_end = (case d_end patch of None \<Rightarrow> d_end old | Some x \<Rightarrow> Some x),
       d_content = (case d_content patch of None \<Rightarrow> d_content old | Some x \<Rightarrow> Some x),
       d_isNote = (case d_isNote patch of None \<Rightarrow> d_isNote old | Some x \<Rightarrow> Some x),
       d_allDay = (case d_allDay patch of None \<Rightarrow> d_allDay old | Some x \<Rightarrow> Some x),
       d_priority = (case d_priority patch of None \<Rightarrow> d_priority old | Some x \<Rightarrow> Some x),
       d_googleEventId =
         (case d_googleEventId patch of None \<Rightarrow> d_googleEventId old | Some x \<Rightarrow> Some x) \<rparr>"

text \<open>
  \<^verbatim>\<open>deleteDoc\<close> succeeds whether or not the document exists;
  \<^verbatim>\<open>updateDoc\<close> rejects a document that does not exist; \<^verbatim>\<open>addDoc\<close>
  stores the data under a new identifier. All three reject while the store refuses writes.
\<close>

definition deleteDoc :: "world \<Rightarrow> string \<Rightarrow> string \<Rightarrow> (error + unit) \<times> world" where
  "deleteDoc w collectionName docId =
     (if \<not> storeUp w then (Inl StoreError, w)
      else (Inr (), setCollection w collectionName
                      (filter (\<lambda>kv. fst kv \<noteq> docId) (getCollection w collectionName))))"

definition updateDoc :: "world \<Rightarrow> string \<Rightarrow> string \<Rightarrow> doc \<Rightarrow> (error + unit) \<times> world" where
  "updateDoc w collectionName docId patch =
     (if \<not> storeUp w then (Inl StoreError, w)
      else if docId \<notin> fst ` set (getCollection w collectionName) then (Inl StoreError, w)
      else (Inr (), setCollection w collectionName
                      (map (\<lambda>kv. if fst kv = docId then (fst kv, mergeDoc (snd kv) patch) else kv)
                         (getCollection w collectionName))))"

definition addDoc :: "env \<Rightarrow> world \<Rightarrow> string \<Rightarrow> doc \<Rightarrow> (error + string) \<times> world" where
  "addDoc e w collectionName newDoc =
     (if \<not> storeUp w then (Inl StoreError, w)
      else
        let docId = autoId e (created w)
        in (Inr docId,
            (setCollection w collectionName (getCollection w collectionName @ [(docId, newDoc)]))
              \<lparr> created := Suc (created w) \<rparr>))"

section \<open>The dashboard\<close>

text \<open>
  The events the snapshot listener builds from the documents of the events collection; a
  document without its time fields is left out.
\<close>

definition eventOfDoc :: "string \<times> doc \<Rightarrow> myEvent option" where
  "eventOfDoc kv =
     (case (d_start (snd kv), d_end (snd kv)) of
        (Some s, Some t) \<Rightarrow>
          Some \<lparr> id' = Some (fst kv),
                 title = orElse (d_title (snd kv)) ''Untitled Event'',
                 start = s,
                 end' = t,
                 allDay = (d_allDay (snd kv) = Some True),
                 isNote = False,
                 content = Some (orElse (d_content (snd kv)) []),
                 priority = Some (case d_priority (snd kv) of None \<Rightarrow> Medium | Some p \<Rightarrow> p),
                 googleEventId =
                   (case d_googleEventId (snd kv) of
                      None \<Rightarrow> Null
                    | Some g \<Rightarrow> if g = [] then Null else Str g),
                 syncedToGoogle = False \<rparr>
      | _ \<Rightarrow> None)"

definition eventsList :: "world \<Rightarrow> myEvent list" where
  "eventsList w = List.map_filter eventOfDoc (eventsCollection w)"

datatype toast = Success string | Failure string

text \<open>
  \<^verbatim>\<open>handleEventDelete\<close>: the local delete comes first; the remote delete follows for
  an event that carries an identifier, and its failure is logged and dropped.
\<close>

definition handleEventDelete ::
  "env \<Rightarrow> world \<Rightarrow> myEvent list \<Rightarrow> string \<Rightarrow> bool \<Rightarrow> toast \<times> world" where
  "handleEventDelete e w events eventId isNoteArg =
     (let eventToDelete = find (\<lambda>ev. id' ev = Some eventId) events;
          collectionName = (if isNoteArg then ''notes'' else ''events'')
      in case deleteDoc w collectionName eventId of
           (Inl err, w1) \<Rightarrow> (Failure ''Failed to delete event'', w1)
         | (Inr u, w1) \<Rightarrow>
             (let w2 =
                    (case eventToDelete of
                       None \<Rightarrow> w1
                     | Some ev \<Rightarrow>
                         (case googleEventId ev of
                            Str gid \<Rightarrow>
                              if \<not> isNoteArg \<and> gid \<noteq> [] then snd (deleteEvent e w1 gid) else w1
                          | _ \<Rightarrow> w1))
              in (Success ((if isNoteArg then ''Note'' else ''Event'') @ '' deleted successfully''), w2)))"

text \<open>
  The delete buttons of the calendar panel: the panel lists the items with
  \<^verbatim>\<open>isNote\<close> as notes and calls the handler with \<^verbatim>\<open>true\<close> for them, and
  with \<^verbatim>\<open>false\<close> for the others.
\<close>

definition onDelete :: "env \<Rightarrow> world \<Rightarrow> myEvent list \<Rightarrow> myEvent \<Rightarrow> toast \<times> world" where
  "onDelete e w events item =
     (case id' item of
        None \<Rightarrow> (Failure ''Failed to delete event'', w)
      | Some eventId \<Rightarrow> handleEventDelete e w events eventId (isNote item))"

text \<open>\<^verbatim>\<open>handleSyncCalendar\<close>: every item that is not a note is synced; the results are dropped.\<close>

fun syncEach :: "env \<Rightarrow> world \<Rightarrow> myEvent list \<Rightarrow> world" where
  "syncEach e w [] = w"
| "syncEach e w (event # rest) = syncEach e (snd (syncEvent e w event)) rest"

definition handleSyncCalendar :: "env \<Rightarrow> world \<Rightarrow> myEvent list \<Rightarrow> toast \<times> world" where
  "handleSyncCalendar e w events =
     (let eventsToSync = filter (\<lambda>ev. \<not> isNote ev) events
      in (Success ''Calendar synced successfully'', syncEach e w eventsToSync))"

section \<open>The editor\<close>

text \<open>
  The state of the form: the date and time pickers are required inputs, so their values
  are well-formed dates and times of day (hour, minute). \<open>f_editorHTML\<close> is the content
  of the rich-text element, where it is mounted, and \<open>f_event\<close> is the item being
  edited, if any.
\<close>

record form =
  f_title :: string
  f_content :: string
  f_startDate :: civil
  f_startTime :: "int \<times> int"
  f_endDate :: civil
  f_endTime :: "int \<times> int"
  f_allDay :: bool
  f_isNote :: bool
  f_priority :: priority
  f_editorHTML :: "string option"
  f_event :: "myEvent option"

text \<open>
  \<^verbatim>\<open>String.prototype.trim\<close> strips white space and line terminators from both ends.
  A character here is a code unit below 256; of these, the ones stripped are 0x09 to 0x0D,
  the space and the no-break space 0xA0.
\<close>

definition isSpace :: "char \<Rightarrow> bool" where
  "isSpace c = (c \<in> set [CHR '' '', CHR 0x09, CHR 0x0A, CHR 0x0B, CHR 0x0C, CHR 0x0D, CHR 0xA0])"

definition trim :: "string \<Rightarrow> string" where
  "trim s = rev (dropWhile isSpace (rev (dropWhile isSpace s)))"

definition validateEventTimes :: "env \<Rightarrow> form \<Rightarrow> bool" where
  "validateEventTimes e f =
     (if f_allDay f then True
      else
        let start = newDateLocal e (f_startDate f) (fst (f_startTime f), snd (f_startTime f), 0);
            end = newDateLocal e (f_endDate f) (fst (f_endTime f), snd (f_endTime f), 0)
        in if end \<le> start then False else True)"

definition kindName :: "bool \<Rightarrow> string" where
  "kindName n = (if n then ''Note'' else ''Event'')"

text \<open>The times, the document and the item that \<^verbatim>\<open>handleSubmit\<close> builds from the form.\<close>

definition currentContent :: "form \<Rightarrow> string" where
  "currentContent f =
     (case f_editorHTML f of
        Some html \<Rightarrow> if f_isNote f then html else f_content f
      | None \<Rightarrow> f_content f)"

definition startDateTime :: "env \<Rightarrow> form \<Rightarrow> int" where
  "startDateTime e f =
     (if f_isNote f then now e
      else if f_allDay f then newDateLocal e (f_startDate f) (0, 0, 0)
      else newDateLocal e (f_startDate f) (fst (f_startTime f), snd (f_startTime f), 0))"

definition endDateTime :: "env \<Rightarrow> form \<Rightarrow> int" where
  "endDateTime e f =
     (if f_isNote f then now e
      else if f_allDay f then newDateLocal e (f_endDate f) (23, 59, 59)
      else newDateLocal e (f_endDate f) (fst (f_endTime f), snd (f_endTime f), 0))"

definition editedGoogleEventId :: "form \<Rightarrow> jsid" where
  "editedGoogleEventId f = (case f_event f of None \<Rightarrow> Undefined | Some ev \<Rightarrow> googleEventId ev)"

definition eventData :: "env \<Rightarrow> form \<Rightarrow> doc" where
  "eventData e f =
     \<lparr> d_title = Some (trim (f_title f)),
       d_start = Some (startDateTime e f),
       d_end = Some (endDateTime e f),
       d_content = (if trim (currentContent f) = [] then None else Some (trim (currentContent f))),
       d_isNote = (if f_isNote f then Some True else None),
       d_allDay = (if f_isNote f then None else Some (f_allDay f)),
       d_priority = (if f_isNote f then None else Some (f_priority f)),
       d_googleEventId =
         (case editedGoogleEventId f of
            Str gid \<Rightarrow> if \<not> f_isNote f \<and> gid \<noteq> [] then Some gid else None
          | _ \<Rightarrow> None) \<rparr>"

definition submittedEvent :: "env \<Rightarrow> form \<Rightarrow> string \<Rightarrow> jsid \<Rightarrow> myEvent" where
  "submittedEvent e f docId gid =
     \<lparr> id' = Some docId, title = trim (f_title f),
       start = startDateTime e f, end' = endDateTime e f,
       allDay = f_allDay f, isNote = False, content = Some (trim (currentContent f)),
       priority = Some (f_priority f), googleEventId = gid, syncedToGoogle = False \<rparr>"

definition collectionName :: "form \<Rightarrow> string" where
  "collectionName f = (if f_isNote f then ''notes'' else ''events'')"

text \<open>The branch of \<^verbatim>\<open>handleSubmit\<close> that saves an edited item.\<close>

definition submitUpdate :: "env \<Rightarrow> world \<Rightarrow> form \<Rightarrow> string \<Rightarrow> toast \<times> world" where
  "submitUpdate e w f eventId =
     (case updateDoc w (collectionName f) eventId (eventData e f) of
        (Inl err, w1) \<Rightarrow> (Failure ''Failed to save. Please try again.'', w1)
      | (Inr u, w1) \<Rightarrow>
          (let w2 =
                 (if \<not> f_isNote f \<and> truthy (editedGoogleEventId f)
                  then snd (updateEvent e w1 (submittedEvent e f eventId (editedGoogleEventId f)))
                  else w1)
           in (Success (kindName (f_isNote f) @ '' updated successfully''), w2)))"

text \<open>
  The branch that saves a new item: the document is added, and for an event the item is
  synced and the identifier that comes back, if truthy, is stored in the document. A
  failure of that second write is logged and dropped.
\<close>

definition submitCreate :: "env \<Rightarrow> world \<Rightarrow> form \<Rightarrow> toast \<times> world" where
  "submitCreate e w f =
     (case addDoc e w (collectionName f) (eventData e f) of
        (Inl err, w1) \<Rightarrow> (Failure ''Failed to save. Please try again.'', w1)
      | (Inr docId, w1) \<Rightarrow>
          (let w2 =
                 (if \<not> f_isNote f then
                    (case syncEvent e w1 (submittedEvent e f docId Undefined) of
                       (Str gid, w') \<Rightarrow>
                         if gid \<noteq> []
                         then snd (updateDoc w' (collectionName f) docId
                                \<lparr> d_title = None, d_start = None, d_end = None,
                                  d_content = None, d_isNote = None, d_allDay = None,
                                  d_priority = None, d_googleEventId = Some gid \<rparr>)
                         else w'
                     | (other, w') \<Rightarrow> w')
                  else w1)
           in (Success (kindName (f_isNote f) @ '' created successfully''), w2)))"

definition handleSubmit :: "env \<Rightarrow> world \<Rightarrow> form \<Rightarrow> toast \<times> world" where
  "handleSubmit e w f =
     (if trim (f_title f) = [] then (Failure ''Please enter a title'', w)
      else if \<not> f_isNote f \<and> \<not> validateEventTimes e f then
        (Failure ''End time must be after start time'', w)
      else
        (case f_event f of
           None \<Rightarrow> submitCreate e w f
         | Some ev \<Rightarrow>
             (case id' ev of
                None \<Rightarrow> submitCreate e w f
              | Some eventId \<Rightarrow>
                  if eventId = [] then submitCreate e w f else submitUpdate e w f eventId)))"

section \<open>Vocabulary of the properties\<close>

text \<open>The requests the service sends for an item, given the bearer token.\<close>

definition createRequest :: "env \<Rightarrow> string \<Rightarrow> myEvent \<Rightarrow> request" where
  "createRequest e token event =
     \<lparr> httpMethod = POST, url = eventsUrl, bearer = Some token,
       body = Some (convertToGoogleEvent e event), window = None \<rparr>"

definition updateRequest :: "env \<Rightarrow> string \<Rightarrow> string \<Rightarrow> myEvent \<Rightarrow> request" where
  "updateRequest e token gid event =
     \<lparr> httpMethod = PATCH, url = eventUrl gid, bearer = Some token,
       body = Some (convertToGoogleEvent e event), window = None \<rparr>"

definition deleteRequest :: "string \<Rightarrow> string \<Rightarrow> request" where
  "deleteRequest token gid =
     \<lparr> httpMethod = DELETE, url = eventUrl gid, bearer = Some token, body = None, window = None \<rparr>"

text \<open>
  The key of an item in the merged list: the remote identifier where the item carries one,
  the local identifier otherwise.
\<close>

definition eventKey :: "myEvent \<Rightarrow> string + string option" where
  "eventKey ev = (case googleEventId ev of Str gid \<Rightarrow> Inl gid | _ \<Rightarrow> Inr (id' ev))"

text \<open>The create requests of the two batch services for a local item.\<close>

definition gapi_createRequest :: "env \<Rightarrow> myEvent \<Rightarrow> request" where
  "gapi_createRequest e event =
     \<lparr> httpMethod = POST, url = eventsUrl, bearer = None,
       body = Some (gapi_convertToGoogleEvent e event), window = None \<rparr>"

definition working_createRequest :: "env \<Rightarrow> string \<Rightarrow> myEvent \<Rightarrow> request" where
  "working_createRequest e token event =
     \<lparr> httpMethod = POST, url = eventsUrl, bearer = Some token,
       body = Some (working_convertToGoogleEvent e event), window = None \<rparr>"

text \<open>The state of the first loop of \<^verbatim>\<open>syncEvents\<close> when it reaches the item at index \<open>i\<close>.\<close>

definition gapi_stateAt :: "env \<Rightarrow> world \<Rightarrow> myEvent list \<Rightarrow> nat \<Rightarrow> world" where
  "gapi_stateAt e w localEvents i =
     snd (gapi_syncLocals e (snd (gapi_getEvents e w (syncWindow e))) (take i localEvents))"

definition working_stateAt :: "env \<Rightarrow> world \<Rightarrow> myEvent list \<Rightarrow> nat \<Rightarrow> world" where
  "working_stateAt e w localEvents i =
     snd (working_syncLocals e (snd (working_getEvents e w (syncWindow e))) (take i localEvents))"

section \<open>Example data\<close>

definition acceptAll :: "request list \<Rightarrow> request \<Rightarrow> response" where
  "acceptAll history req = Response 200 (Some \<lparr> j_id = Str ''g1'', j_items = Some [], j_access_token = None \<rparr>)"

definition docIds :: "nat \<Rightarrow> string" where
  "docIds n = replicate (Suc n) CHR ''d''"

definition utc :: env where
  "utc = \<lparr> tzOffset = 0, timeZone = ''UTC'', server = acceptAll,
           now = 1717243200000, autoId = docIds, signInWithPopup = (\<lambda>n. PopupRejected) \<rparr>"

definition kolkata :: env where
  "kolkata = utc \<lparr> tzOffset := - 330, timeZone := ''Asia/Kolkata'' \<rparr>"

text \<open>A remote calendar that fails the first call it receives, and one that fails every call.\<close>

definition failFirst :: "request list \<Rightarrow> request \<Rightarrow> response" where
  "failFirst history req = (if history = [] then Response 500 None else acceptAll history req)"

definition flaky :: env where
  "flaky = utc \<lparr> server := failFirst \<rparr>"

definition rejectAll :: "request list \<Rightarrow> request \<Rightarrow> response" where
  "rejectAll history req = Response 500 None"

definition down :: env where
  "down = utc \<lparr> server := rejectAll \<rparr>"

text \<open>A signed-in session with a token, nothing sent and an empty store.\<close>

definition world0 :: world where
  "world0 = \<lparr> currentUser = True, sessionToken = Some ''token'', isSignedIn = True,
              accessToken = Some ''token'', localAccessToken = None, localRefreshToken = None,
              popups = 0, sent = [], eventsCollection = [],
              notesCollection = [], created = 0, storeUp = True \<rparr>"

text \<open>The timed item and the all-day item of the scenarios, as the editor builds them.\<close>

definition standup :: "env \<Rightarrow> myEvent" where
  "standup e =
     \<lparr> id' = Some ''doc1'', title = ''Standup'',
       start = newDateLocal e (2024, 5, 1) (9, 0, 0),
       end' = newDateLocal e (2024, 5, 1) (9, 30, 0),
       allDay = False, isNote = False, content = Some [], priority = Some Medium,
       googleEventId = Undefined, syncedToGoogle = False \<rparr>"

definition vacation :: "env \<Rightarrow> myEvent" where
  "vacation e =
     \<lparr> id' = Some ''doc2'', title = ''Vacation'',
       start = newDateLocal e (2024, 6, 1) (0, 0, 0),
       end' = newDateLocal e (2024, 6, 3) (23, 59, 59),
       allDay = True, isNote = False, content = Some [], priority = Some High,
       googleEventId = Undefined, syncedToGoogle = False \<rparr>"

text \<open>The timed item once linked, its document, and a store that holds it.\<close>

definition linkedStandup :: "env \<Rightarrow> myEvent" where
  "linkedStandup e = (standup e) \<lparr> googleEventId := Str ''g1'' \<rparr>"

definition standupDoc :: "env \<Rightarrow> doc" where
  "standupDoc e =
     \<lparr> d_title = Some ''Standup'', d_start = Some (newDateLocal e (2024, 5, 1) (9, 0, 0)),
       d_end = Some (newDateLocal e (2024, 5, 1) (9, 30, 0)), d_content = None, d_isNote = None,
       d_allDay = Some False, d_priority = Some Medium, d_googleEventId = Some ''g1'' \<rparr>"

definition world1 :: "env \<Rightarrow> world" where
  "world1 e = world0 \<lparr> eventsCollection := [(''doc1'', standupDoc e)], created := 1 \<rparr>"

text \<open>A second local document linked to the same remote event as the first.\<close>

definition linkedCopy :: "env \<Rightarrow> myEvent" where
  "linkedCopy e = (linkedStandup e) \<lparr> id' := Some ''doc9'' \<rparr>"

text \<open>Two fetched events: the remote counterpart of the timed item and an all-day event.\<close>

definition remoteStandup :: remoteItem where
  "remoteStandup =
     \<lparr> r_id = ''g1'', r_summary = Some ''Standup'', r_description = None,
       r_start = DateTime 1714554000000 (Some ''UTC''),
       r_end = DateTime 1714555800000 (Some ''UTC'') \<rparr>"

definition remoteHoliday :: remoteItem where
  "remoteHoliday =
     \<lparr> r_id = ''g2'', r_summary = Some ''Holiday'', r_description = None,
       r_start = DateOnly (2024, 6, 1), r_end = DateOnly (2024, 6, 4) \<rparr>"

text \<open>A note as the dashboard lists it, and the form that edits a new note.\<close>

definition memo :: "env \<Rightarrow> myEvent" where
  "memo e =
     \<lparr> id' = Some ''note1'', title = ''Memo'', start = now e, end' = now e, allDay = True,
       isNote = True, content = Some ''buy milk'', priority = None, googleEventId = Undefined,
       syncedToGoogle = False \<rparr>"

definition memoForm :: form where
  "memoForm =
     \<lparr> f_title = ''Memo'', f_content = [], f_startDate = (2024, 6, 1), f_startTime = (9, 0),
       f_endDate = (2024, 6, 1), f_endTime = (9, 0), f_allDay = False, f_isNote = True,
       f_priority = Medium, f_editorHTML = Some ''buy milk'', f_event = None \<rparr>"

text \<open>A remote calendar that answers list requests with an empty list and fails every other call.\<close>

definition listOnly :: "request list \<Rightarrow> request \<Rightarrow> response" where
  "listOnly history req =
     (if httpMethod req = GET then Response 200 (Some \<lparr> j_id = Undefined, j_items = Some [], j_access_token = None \<rparr>)
      else Response 500 None)"

definition readOnly :: env where
  "readOnly = utc \<lparr> server := listOnly \<rparr>"

text \<open>
  The forms of an all-day event whose end date lies before its start date, and of a timed
  event that ends before it starts.
\<close>

definition backwardsTrip :: form where
  "backwardsTrip =
     \<lparr> f_title = ''Trip'', f_content = [], f_startDate = (2024, 6, 3), f_startTime = (9, 0),
       f_endDate = (2024, 6, 1), f_endTime = (10, 0), f_allDay = True, f_isNote = False,
       f_priority = Medium, f_editorHTML = None, f_event = None \<rparr>"

definition backwardsMeeting :: form where
  "backwardsMeeting =
     \<lparr> f_title = ''Meeting'', f_content = [], f_startDate = (2024, 6, 3), f_startTime = (9, 30),
       f_endDate = (2024, 6, 3), f_endTime = (9, 0), f_allDay = False, f_isNote = False,
       f_priority = Medium, f_editorHTML = None, f_event = None \<rparr>"

text \<open>
  The form of the timed item, the state after it is saved, and the state after it is
  saved without a token and the token arrives later.
\<close>

definition standupForm :: form where
  "standupForm =
     \<lparr> f_title = ''Standup'', f_content = [], f_startDate = (2024, 5, 1), f_startTime = (9, 0),
       f_endDate = (2024, 5, 1), f_endTime = (9, 30), f_allDay = False, f_isNote = False,
       f_priority = Medium, f_editorHTML = None, f_event = None \<rparr>"

definition savedOnline :: world where
  "savedOnline = snd (handleSubmit utc world0 standupForm)"

definition savedOffline :: world where
  "savedOffline =
     (snd (handleSubmit utc (world0 \<lparr> sessionToken := None \<rparr>) standupForm))
       \<lparr> sessionToken := Some ''token'' \<rparr>"

definition syncedOnce :: world where
  "syncedOnce = snd (handleSyncCalendar utc savedOffline (eventsList savedOffline))"

text \<open>The requests of the token check: the probe of the calendar and the token request.\<close>

definition tokenCall :: "request \<Rightarrow> bool" where
  "tokenCall q = (url q = calendarUrl \<or> url q = tokenUrl)"

definition probeRequest :: "string \<Rightarrow> request" where
  "probeRequest token =
     \<lparr> httpMethod = GET, url = calendarUrl, bearer = Some token, body = None, window = None \<rparr>"

text \<open>A session of the service with token renewal: an access token in local storage.\<close>

definition stored0 :: world where
  "stored0 = world0 \<lparr> localAccessToken := Some ''token'' \<rparr>"

text \<open>A remote calendar that answers every call with the status 401.\<close>

definition unauthorized :: "request list \<Rightarrow> request \<Rightarrow> response" where
  "unauthorized history req = Response 401 None"

definition expired :: env where
  "expired = utc \<lparr> server := unauthorized \<rparr>"

section \<open>Properties of the translation\<close>

lemma colorMap_inj: "inj colorMap"
proof (rule injI)
  fix p q
  assume "colorMap p = colorMap q"
  then show "p = q" by (cases p; cases q) simp_all
qed

text \<open>
  C8. The translation sets the colour tag of the remote event to the image of the item's
  priority under the table low to 2, medium to 9, high to 11, taking medium when the item
  has no priority. The table is injective, so the priority can be read back from the tag.
\<close>

theorem convertToGoogleEvent_colorId:
  "colorId (convertToGoogleEvent e event)
     = Some (colorMap (case priority event of None \<Rightarrow> Medium | Some p \<Rightarrow> p))
   \<and> colorMap Low = ''2'' \<and> colorMap Medium = ''9'' \<and> colorMap High = ''11''
   \<and> inj colorMap"
  using colorMap_inj by (simp add: convertToGoogleEvent_def Let_def)

theorem convertToGoogleEvent_colorId_witness:
  "colorId (convertToGoogleEvent utc (vacation utc)) = Some ''11''"
  using convertToGoogleEvent_colorId [of utc "vacation utc"] by (simp add: vacation_def)

section \<open>Properties of the calendar service\<close>

lemma makeRequest_unauth:
  "getAccessToken w = Inl err \<Longrightarrow> makeRequest e w u m b = (Inl err, w)"
  by (simp add: makeRequest_def)

lemma makeRequest_sent:
  "getAccessToken w = Inr token \<Longrightarrow>
   sent (snd (makeRequest e w u m b))
     = sent w @ [\<lparr> httpMethod = m, url = u, bearer = Some token, body = b, window = None \<rparr>]"
  by (simp add: makeRequest_def fetch_def split: response.splits option.splits)

lemma makeRequest_store:
  "eventsCollection (snd (makeRequest e w u m b)) = eventsCollection w \<and>
   notesCollection (snd (makeRequest e w u m b)) = notesCollection w \<and>
   storeUp (snd (makeRequest e w u m b)) = storeUp w \<and>
   created (snd (makeRequest e w u m b)) = created w"
  by (simp add: makeRequest_def fetch_def split: sum.splits response.splits option.splits)

lemma makeRequest_Inr:
  "makeRequest e w u m b = (Inr j, w1) \<Longrightarrow>
   \<exists>token status. getAccessToken w = Inr token \<and> ok status \<and>
     server e (sent w) \<lparr> httpMethod = m, url = u, bearer = Some token, body = b, window = None \<rparr>
       = Response status (Some j) \<and>
     getAccessToken w1 = Inr token"
  by (auto simp add: makeRequest_def fetch_def getAccessToken_def split: sum.splits response.splits option.splits if_splits)

lemma makeRequest_answer:
  "getAccessToken w = Inr token \<Longrightarrow>
   server e (sent w) \<lparr> httpMethod = m, url = u, bearer = Some token, body = b, window = None \<rparr>
     = Response status (Some j) \<Longrightarrow> ok status \<Longrightarrow>
   fst (makeRequest e w u m b) = Inr j"
  by (simp add: makeRequest_def fetch_def)

lemma createEvent_sent:
  "getAccessToken w = Inr token \<Longrightarrow>
   sent (snd (createEvent e w event)) = sent w @ [createRequest e token event]"
  using makeRequest_sent [of w token e eventsUrl POST "Some (convertToGoogleEvent e event)"]
  by (auto simp add: createEvent_def createRequest_def Let_def split: prod.splits sum.splits)

lemma updateEvent_sent:
  "getAccessToken w = Inr token \<Longrightarrow> googleEventId event = Str gid \<Longrightarrow> gid \<noteq> [] \<Longrightarrow>
   sent (snd (updateEvent e w event)) = sent w @ [updateRequest e token gid event]"
  using makeRequest_sent [of w token e "eventUrl gid" PATCH "Some (convertToGoogleEvent e event)"]
  by (auto simp add: updateEvent_def updateRequest_def Let_def split: prod.splits sum.splits)

lemma deleteEvent_sent:
  "getAccessToken w = Inr token \<Longrightarrow>
   sent (snd (deleteEvent e w gid)) = sent w @ [deleteRequest token gid]"
  using makeRequest_sent [of w token e "eventUrl gid" DELETE None]
  by (auto simp add: deleteEvent_def deleteRequest_def split: prod.splits sum.splits)

lemma syncEvent_unauth:
  "getAccessToken w = Inl err \<Longrightarrow> syncEvent e w event = (Null, w)"
  by (cases "googleEventId event")
     (simp_all add: syncEvent_def createEvent_def updateEvent_def makeRequest_unauth Let_def)

lemma syncEvent_create_sent:
  "getAccessToken w = Inr token \<Longrightarrow> \<not> truthy (googleEventId event) \<Longrightarrow>
   sent (snd (syncEvent e w event)) = sent w @ [createRequest e token event]"
  using createEvent_sent [of w token e event]
  by (auto simp add: syncEvent_def split: prod.splits sum.splits)

lemma syncEvent_update_sent:
  "getAccessToken w = Inr token \<Longrightarrow> googleEventId event = Str gid \<Longrightarrow> gid \<noteq> [] \<Longrightarrow>
   sent (snd (syncEvent e w event)) = sent w @ [updateRequest e token gid event]"
  using updateEvent_sent [of w token event gid e]
  by (auto simp add: syncEvent_def split: prod.splits sum.splits)

lemma syncEvent_create_result:
  "getAccessToken w = Inr token \<Longrightarrow> \<not> truthy (googleEventId event) \<Longrightarrow>
   server e (sent w) (createRequest e token event) = Response status (Some j) \<Longrightarrow> ok status \<Longrightarrow>
   fst (syncEvent e w event) = j_id j"
  using makeRequest_answer [of w token e POST eventsUrl "Some (convertToGoogleEvent e event)" status j]
  by (auto simp add: syncEvent_def createEvent_def createRequest_def Let_def split: prod.splits sum.splits)

lemma syncEvent_created_token:
  "\<not> truthy (googleEventId event) \<Longrightarrow> syncEvent e w event = (Str gid, w1) \<Longrightarrow>
   getAccessToken w1 = getAccessToken w \<and> (\<exists>token. getAccessToken w = Inr token)"
  by (auto simp add: syncEvent_def createEvent_def Let_def split: prod.splits sum.splits dest!: makeRequest_Inr)


lemma getAccessToken_world0: "getAccessToken world0 = Inr ''token''"
  by (simp add: getAccessToken_def world0_def)

subsection \<open>The service with token renewal\<close>

lemma requestNewTokens_sent: "sent (snd (requestNewTokens e w)) = sent w"
  by (simp add: requestNewTokens_def Let_def split: popupResult.splits option.splits)

lemma refreshAccessToken_sent:
  "\<exists>q. sent (snd (refreshAccessToken e w r)) = sent w @ [q] \<and> tokenCall q"
  by (auto simp add: refreshAccessToken_def fetch_def tokenCall_def requestNewTokens_sent
      split: response.splits option.splits)

lemma renewToken_sent:
  "\<exists>pre. sent (snd (renewToken e w)) = sent w @ pre \<and> (\<forall>q \<in> set pre. tokenCall q)"
proof (cases "present (localRefreshToken w)")
  case False
  then have "sent (snd (renewToken e w)) = sent w @ []"
    by (auto simp add: renewToken_def present_def requestNewTokens_sent split: option.splits)
  then show ?thesis by (intro exI [of _ "[]"]) simp
next
  case True
  then obtain r where r: "localRefreshToken w = Some r" "r \<noteq> []"
    by (auto simp add: present_def split: option.splits)
  from refreshAccessToken_sent [of e w r] obtain q where
    "sent (snd (refreshAccessToken e w r)) = sent w @ [q]" "tokenCall q" by blast
  with r show ?thesis by (intro exI [of _ "[q]"]) (simp add: renewToken_def)
qed

lemma ensureValidToken_sent:
  "\<exists>pre. sent (snd (ensureValidToken e w)) = sent w @ pre \<and> (\<forall>q \<in> set pre. tokenCall q)"
proof (cases "present (localAccessToken w)")
  case False
  note noToken = this
  show ?thesis
  proof (cases "present (localRefreshToken w)")
    case False
    with noToken have "sent (snd (ensureValidToken e w)) = sent w @ []"
      by (simp add: ensureValidToken_def requestNewTokens_sent)
    then show ?thesis by (intro exI [of _ "[]"]) simp
  next
    case True
    with noToken have "ensureValidToken e w = renewToken e w"
      by (auto simp add: ensureValidToken_def present_def split: option.splits)
    then show ?thesis using renewToken_sent [of e w] by simp
  qed
next
  case True
  then obtain token where t: "localAccessToken w = Some token" "token \<noteq> []"
    by (auto simp add: present_def split: option.splits)
  define probe where "probe = \<lparr> httpMethod = GET, url = calendarUrl, bearer = Some token,
                               body = None, window = None \<rparr>"
  define w1 where "w1 = w \<lparr> sent := sent w @ [probe] \<rparr>"
  have p: "tokenCall probe" by (simp add: probe_def tokenCall_def)
  have f: "fetch e w probe = (server e (sent w) probe, w1)"
    by (simp add: fetch_def w1_def)
  have c: "ensureValidToken e w = (False, w1) \<or> ensureValidToken e w = (True, w1)
             \<or> ensureValidToken e w = renewToken e w1"
    using t True f
    by (cases "server e (sent w) probe") (auto simp add: ensureValidToken_def probe_def)
  from renewToken_sent [of e w1] obtain pre where
    r: "sent (snd (renewToken e w1)) = sent w1 @ pre" "\<forall>q \<in> set pre. tokenCall q" by blast
  from c show ?thesis
  proof (elim disjE)
    assume "ensureValidToken e w = (False, w1)"
    with p show ?thesis by (intro exI [of _ "[probe]"]) (simp add: w1_def)
  next
    assume "ensureValidToken e w = (True, w1)"
    with p show ?thesis by (intro exI [of _ "[probe]"]) (simp add: w1_def)
  next
    assume "ensureValidToken e w = renewToken e w1"
    with p r show ?thesis by (intro exI [of _ "probe # pre"]) (simp add: w1_def)
  qed
qed

lemma stored_makeRequest_sent:
  "sent (snd (stored_makeRequest e w u m b)) = sent w
   \<or> (\<exists>token. sent (snd (stored_makeRequest e w u m b))
         = sent w @ [\<lparr> httpMethod = m, url = u, bearer = Some token, body = b, window = None \<rparr>])"
  by (auto simp add: stored_makeRequest_def fetch_def split: sum.splits response.splits option.splits)

lemma stored_createEvent_sent:
  "sent (snd (stored_createEvent e w event)) = sent w
   \<or> (\<exists>token. sent (snd (stored_createEvent e w event)) = sent w @ [createRequest e token event])"
  using stored_makeRequest_sent [of e w eventsUrl POST "Some (convertToGoogleEvent e event)"]
  by (auto simp add: stored_createEvent_def createRequest_def Let_def split: prod.splits sum.splits)

lemma stored_updateEvent_sent:
  assumes "googleEventId event = Str gid"
  shows "\<exists>pre. (\<forall>q \<in> set pre. tokenCall q)
     \<and> (sent (snd (stored_updateEvent e w event)) = sent w @ pre
        \<or> (\<exists>token. sent (snd (stored_updateEvent e w event))
              = sent w @ pre @ [updateRequest e token gid event]))"
proof -
  obtain valid w0 where v: "ensureValidToken e w = (valid, w0)"
    by (cases "ensureValidToken e w")
  from ensureValidToken_sent [of e w] v obtain pre where
    pre: "sent w0 = sent w @ pre" "\<forall>q \<in> set pre. tokenCall q" by auto
  have "snd (stored_updateEvent e w event)
          = (if valid \<and> gid \<noteq> []
             then snd (stored_makeRequest e w0 (eventUrl gid) PATCH (Some (convertToGoogleEvent e event)))
             else w0)"
    using v assms
    by (cases valid) (simp_all add: stored_updateEvent_def Let_def split: prod.splits sum.splits)
  then have "sent (snd (stored_updateEvent e w event)) = sent w0
      \<or> (\<exists>token. sent (snd (stored_updateEvent e w event)) = sent w0 @ [updateRequest e token gid event])"
    using stored_makeRequest_sent [of e w0 "eventUrl gid" PATCH "Some (convertToGoogleEvent e event)"]
    by (auto simp add: updateRequest_def)
  with pre show ?thesis by (intro exI [of _ pre]) auto
qed

text \<open>
  The requests of one \<^verbatim>\<open>syncEvent\<close> of the service with token renewal are the
  requests of its token checks, followed by at most one request for the item: a create
  for an item without identifier, an update addressed by the identifier otherwise. When
  the first token check fails the call throws and sends nothing for the item.
\<close>

lemma stored_syncEvent_requests:
  "\<exists>pre. (\<forall>q \<in> set pre. tokenCall q)
     \<and> (sent (snd (stored_syncEvent e w event)) = sent w @ pre
        \<or> (\<exists>token. \<not> truthy (googleEventId event)
              \<and> sent (snd (stored_syncEvent e w event)) = sent w @ pre @ [createRequest e token event])
        \<or> (\<exists>token gid. googleEventId event = Str gid \<and> gid \<noteq> []
              \<and> sent (snd (stored_syncEvent e w event))
                  = sent w @ pre @ [updateRequest e token gid event]))
     \<and> (fst (ensureValidToken e w) = False \<longrightarrow>
          fst (stored_syncEvent e w event) = Inl NotConnected
        \<and> sent (snd (stored_syncEvent e w event)) = sent w @ pre)"
proof -
  obtain valid w0 where v: "ensureValidToken e w = (valid, w0)"
    by (cases "ensureValidToken e w")
  from ensureValidToken_sent [of e w] v obtain pre where
    pre: "sent w0 = sent w @ pre" "\<forall>q \<in> set pre. tokenCall q" by auto
  show ?thesis
  proof (cases valid)
    case False
    with v pre show ?thesis
      by (intro exI [of _ pre]) (simp add: stored_syncEvent_def)
  next
    case True
    note valid = this
    show ?thesis
    proof (cases "truthy (googleEventId event)")
      case False
      have "sent (snd (stored_syncEvent e w event)) = sent (snd (stored_createEvent e w0 event))"
        using v valid False by (simp add: stored_syncEvent_def split: prod.splits sum.splits)
      with stored_createEvent_sent [of e w0 event] pre v valid False show ?thesis
        by (intro exI [of _ pre]) auto
    next
      case True
      then obtain gid where g: "googleEventId event = Str gid" "gid \<noteq> []"
        by (cases "googleEventId event") simp_all
      from stored_updateEvent_sent [OF g(1), of e w0] obtain pre2 where
        p2: "\<forall>q \<in> set pre2. tokenCall q"
          "sent (snd (stored_updateEvent e w0 event)) = sent w0 @ pre2
           \<or> (\<exists>token. sent (snd (stored_updateEvent e w0 event))
                 = sent w0 @ pre2 @ [updateRequest e token gid event])"
        by blast
      have "sent (snd (stored_syncEvent e w event)) = sent (snd (stored_updateEvent e w0 event))"
        using v valid True by (simp add: stored_syncEvent_def split: prod.splits sum.splits)
      with p2 pre g v valid show ?thesis
        by (intro exI [of _ "pre @ pre2"]) auto
    qed
  qed
qed

lemma stored_makeRequest_unauth:
  "stored_getAccessToken w = Inl err \<Longrightarrow> stored_makeRequest e w u m b = (Inl err, w)"
  by (simp add: stored_makeRequest_def)

lemma stored_makeRequest_token:
  "stored_getAccessToken w = Inr token \<Longrightarrow>
   sent (snd (stored_makeRequest e w u m b))
     = sent w @ [\<lparr> httpMethod = m, url = u, bearer = Some token, body = b, window = None \<rparr>]"
  by (simp add: stored_makeRequest_def fetch_def split: response.splits option.splits)

lemma stored_makeRequest_answer:
  "stored_getAccessToken w = Inr token \<Longrightarrow>
   server e (sent w) \<lparr> httpMethod = m, url = u, bearer = Some token, body = b, window = None \<rparr>
     = Response status (Some j) \<Longrightarrow> ok status \<Longrightarrow>
   fst (stored_makeRequest e w u m b) = Inr j"
  by (simp add: stored_makeRequest_def fetch_def)

lemma stored_makeRequest_Inr:
  "stored_makeRequest e w u m b = (Inr j, w1) \<Longrightarrow> \<exists>token. stored_getAccessToken w = Inr token"
  by (cases "stored_getAccessToken w") (simp_all add: stored_makeRequest_def)

lemma stored_createEvent_unauth:
  "stored_getAccessToken w = Inl err \<Longrightarrow> stored_createEvent e w event = (Inl err, w)"
  by (simp add: stored_createEvent_def stored_makeRequest_unauth)

lemma stored_createEvent_token:
  "stored_getAccessToken w = Inr token \<Longrightarrow>
   sent (snd (stored_createEvent e w event)) = sent w @ [createRequest e token event]"
  using stored_makeRequest_token [of w token e eventsUrl POST "Some (convertToGoogleEvent e event)"]
  by (auto simp add: stored_createEvent_def createRequest_def Let_def split: prod.splits sum.splits)

lemma stored_createEvent_answer:
  "stored_getAccessToken w = Inr token \<Longrightarrow>
   server e (sent w) (createRequest e token event) = Response status (Some j) \<Longrightarrow> ok status \<Longrightarrow>
   fst (stored_createEvent e w event) = Inr (j_id j)"
  using stored_makeRequest_answer [of w token e POST eventsUrl "Some (convertToGoogleEvent e event)" status j]
  by (auto simp add: stored_createEvent_def createRequest_def Let_def split: prod.splits sum.splits)

lemma stored_createEvent_Inr:
  "stored_createEvent e w event = (Inr gid, w1) \<Longrightarrow> \<exists>token. stored_getAccessToken w = Inr token"
  by (auto simp add: stored_createEvent_def Let_def split: prod.splits sum.splits
      dest: stored_makeRequest_Inr)

lemma stored_syncEvent_unchecked:
  "ensureValidToken e w = (False, w0) \<Longrightarrow> stored_syncEvent e w event = (Inl NotConnected, w0)"
  by (simp add: stored_syncEvent_def)

lemma stored_syncEvent_create:
  "ensureValidToken e w = (True, w0) \<Longrightarrow> \<not> truthy (googleEventId event) \<Longrightarrow>
   stored_syncEvent e w event =
     (case stored_createEvent e w0 event of (Inl err, w1) \<Rightarrow> (Inr Null, w1) | (Inr gid, w1) \<Rightarrow> (Inr gid, w1))"
  by (simp add: stored_syncEvent_def)

lemma stored_syncEvent_update:
  "ensureValidToken e w = (True, w0) \<Longrightarrow> truthy (googleEventId event) \<Longrightarrow>
   stored_syncEvent e w event =
     (case stored_updateEvent e w0 event of (Inl err, w1) \<Rightarrow> (Inr Null, w1)
      | (Inr u, w1) \<Rightarrow> (Inr (googleEventId event), w1))"
  by (simp add: stored_syncEvent_def)

lemma stored_syncEvent_create_sent:
  assumes "ensureValidToken e w = (True, w0)" and "\<not> truthy (googleEventId event)"
    and "stored_getAccessToken w0 = Inr token"
  shows "sent (snd (stored_syncEvent e w event)) = sent w0 @ [createRequest e token event]"
  using stored_createEvent_token [OF assms(3), of e event]
  by (auto simp add: stored_syncEvent_create [OF assms(1,2)] split: prod.splits sum.splits)

lemma stored_syncEvent_create_result:
  assumes "ensureValidToken e w = (True, w0)" and "\<not> truthy (googleEventId event)"
    and "stored_getAccessToken w0 = Inr token"
    and "server e (sent w0) (createRequest e token event) = Response status (Some j)" and "ok status"
  shows "fst (stored_syncEvent e w event) = Inr (j_id j)"
  using stored_createEvent_answer [OF assms(3,4,5)]
  by (auto simp add: stored_syncEvent_create [OF assms(1,2)] split: prod.splits sum.splits)

lemma stored_syncEvent_create_unauth:
  assumes "ensureValidToken e w = (True, w0)" and "\<not> truthy (googleEventId event)"
    and "stored_getAccessToken w0 = Inl err"
  shows "stored_syncEvent e w event = (Inr Null, w0)"
  by (simp add: stored_syncEvent_create [OF assms(1,2)] stored_createEvent_unauth [OF assms(3)])

lemma stored_updateEvent_token:
  assumes "ensureValidToken e w = (True, w0)" and "googleEventId event = Str gid" and "gid \<noteq> []"
    and "stored_getAccessToken w0 = Inr token"
  shows "sent (snd (stored_updateEvent e w event)) = sent w0 @ [updateRequest e token gid event]"
  using stored_makeRequest_token [OF assms(4), of e "eventUrl gid" PATCH "Some (convertToGoogleEvent e event)"]
    assms(1,2,3)
  by (auto simp add: stored_updateEvent_def updateRequest_def Let_def split: prod.splits sum.splits)

lemma stored_syncEvent_update_sent:
  assumes "ensureValidToken e w = (True, w0)" and "ensureValidToken e w0 = (True, w0')"
    and "googleEventId event = Str gid" and "gid \<noteq> []" and "stored_getAccessToken w0' = Inr token"
  shows "sent (snd (stored_syncEvent e w event)) = sent w0' @ [updateRequest e token gid event]"
proof -
  have t: "truthy (googleEventId event)" using assms(3,4) by simp
  from stored_updateEvent_token [OF assms(2,3,4,5)] show ?thesis
    by (auto simp add: stored_syncEvent_update [OF assms(1) t] split: prod.splits sum.splits)
qed

lemma stored_syncEvent_update_unchecked:
  assumes "ensureValidToken e w = (True, w0)" and "ensureValidToken e w0 = (False, w0')"
    and "truthy (googleEventId event)"
  shows "stored_syncEvent e w event = (Inr Null, w0')"
  using assms(2) by (simp add: stored_syncEvent_update [OF assms(1,3)] stored_updateEvent_def)

lemma stored_syncEvent_created:
  assumes "\<not> truthy (googleEventId event)" and "stored_syncEvent e w event = (Inr (Str gid), w1)"
  shows "\<exists>pre token. (\<forall>q \<in> set pre. tokenCall q)
           \<and> sent w1 = sent w @ pre @ [createRequest e token event]"
proof -
  obtain valid w0 where v: "ensureValidToken e w = (valid, w0)"
    by (cases "ensureValidToken e w")
  from ensureValidToken_sent [of e w] v obtain pre where
    pre: "sent w0 = sent w @ pre" "\<forall>q \<in> set pre. tokenCall q" by auto
  have valid: valid
    using v assms(2) by (cases valid) (simp_all add: stored_syncEvent_def)
  with v have v': "ensureValidToken e w = (True, w0)" by simp
  have c: "stored_createEvent e w0 event = (Inr (Str gid), w1)"
    using assms(2) by (auto simp add: stored_syncEvent_create [OF v' assms(1)] split: prod.splits sum.splits)
  then obtain token where t: "stored_getAccessToken w0 = Inr token"
    using stored_createEvent_Inr by blast
  from stored_createEvent_token [OF t, of e event] c
  have "sent w1 = sent w0 @ [createRequest e token event]" by simp
  with pre show ?thesis by auto
qed


lemma stored_syncEvent_shape:
  "\<exists>pre. (\<forall>q \<in> set pre. tokenCall q)
     \<and> (sent (snd (stored_syncEvent e w event)) = sent w @ pre
        \<or> (\<exists>token. \<not> truthy (googleEventId event)
              \<and> sent (snd (stored_syncEvent e w event)) = sent w @ pre @ [createRequest e token event])
        \<or> (\<exists>token gid. googleEventId event = Str gid \<and> gid \<noteq> []
              \<and> sent (snd (stored_syncEvent e w event))
                  = sent w @ pre @ [updateRequest e token gid event]))"
  using stored_syncEvent_requests [of e w event] by blast

lemma stored_syncEvent_sequence:
  assumes "\<not> truthy (googleEventId event)"
    and "stored_syncEvent e w event = (Inr (Str gid), w1)" and "gid \<noteq> []"
  shows "\<exists>pre token pre2.
           (\<forall>q \<in> set pre. tokenCall q) \<and> (\<forall>q \<in> set pre2. tokenCall q)
         \<and> sent w1 = sent w @ pre @ [createRequest e token event]
         \<and> (sent (snd (stored_syncEvent e w1 (event \<lparr> googleEventId := Str gid \<rparr>)))
               = sent w1 @ pre2
            \<or> (\<exists>token2. sent (snd (stored_syncEvent e w1 (event \<lparr> googleEventId := Str gid \<rparr>)))
                  = sent w1 @ pre2 @ [updateRequest e token2 gid (event \<lparr> googleEventId := Str gid \<rparr>)]))"
proof -
  from stored_syncEvent_created [OF assms(1,2)] obtain pre token where
    p: "\<forall>q \<in> set pre. tokenCall q" "sent w1 = sent w @ pre @ [createRequest e token event]"
    by blast
  from stored_syncEvent_shape [of e w1 "event \<lparr> googleEventId := Str gid \<rparr>"] assms(3)
  obtain pre2 where
    q: "\<forall>q \<in> set pre2. tokenCall q"
       "sent (snd (stored_syncEvent e w1 (event \<lparr> googleEventId := Str gid \<rparr>))) = sent w1 @ pre2
        \<or> (\<exists>token2. sent (snd (stored_syncEvent e w1 (event \<lparr> googleEventId := Str gid \<rparr>)))
                  = sent w1 @ pre2 @ [updateRequest e token2 gid (event \<lparr> googleEventId := Str gid \<rparr>)])"
    by auto
  from p q show ?thesis by blast
qed

text \<open>
  C1 (amended). \<^verbatim>\<open>syncEvent\<close> dispatches on the presence of a non-empty
  \<^verbatim>\<open>googleEventId\<close>.

  In the service with the token in session storage: without a user or a token it sends
  nothing and returns \<^verbatim>\<open>null\<close>. With them, an item without identifier causes
  exactly one create, and the call returns the identifier of a successful answer; an item
  with an identifier causes exactly one update addressed by that identifier and no create.
  When the call on an item without identifier returns a non-empty identifier and the
  caller records it on the item, the two calls together send one create followed by one
  update.

  In the service with token renewal the call checks its tokens first, which sends only
  requests of the token check. When the check fails the call throws
  \<^verbatim>\<open>Google Calendar not connected\<close>. When it succeeds, an item without identifier
  causes exactly one create with the token found in storage, and the call returns the
  identifier of a successful answer (\<^verbatim>\<open>null\<close> and no request when no token is
  found); an item with an identifier goes through the token check of the update, and
  then, with the token found in storage, causes exactly one update addressed by that
  identifier (\<^verbatim>\<open>null\<close> and no request for the item when that check fails). In every case the requests of one call are
  token checks followed by at most one request for the item, a create only for an item
  without identifier. When the call on an item without identifier returns a non-empty
  identifier and the caller records it on the item, the two calls together send, between
  token checks, one create followed by at most one update, and exactly one update when
  the token checks of the second call succeed.
\<close>

theorem syncEvent_dispatch:
  "(\<forall>err. getAccessToken w = Inl err \<longrightarrow> syncEvent e w event = (Null, w))
   \<and> (\<forall>token. getAccessToken w = Inr token \<and> \<not> truthy (googleEventId event) \<longrightarrow>
          sent (snd (syncEvent e w event)) = sent w @ [createRequest e token event]
        \<and> (\<forall>status j. server e (sent w) (createRequest e token event) = Response status (Some j)
               \<and> ok status \<longrightarrow> fst (syncEvent e w event) = j_id j))
   \<and> (\<forall>token gid. getAccessToken w = Inr token \<and> googleEventId event = Str gid \<and> gid \<noteq> [] \<longrightarrow>
          sent (snd (syncEvent e w event)) = sent w @ [updateRequest e token gid event])
   \<and> (\<forall>gid w1. \<not> truthy (googleEventId event) \<and> syncEvent e w event = (Str gid, w1) \<and> gid \<noteq> [] \<longrightarrow>
          (\<exists>token. getAccessToken w = Inr token \<and>
             sent (snd (syncEvent e w1 (event \<lparr> googleEventId := Str gid \<rparr>)))
               = sent w @ [createRequest e token event,
                           updateRequest e token gid (event \<lparr> googleEventId := Str gid \<rparr>)]))
   \<and> (\<forall>w0. ensureValidToken e w = (False, w0) \<longrightarrow>
          stored_syncEvent e w event = (Inl NotConnected, w0))
   \<and> (\<forall>w0 token. ensureValidToken e w = (True, w0) \<and> \<not> truthy (googleEventId event)
          \<and> stored_getAccessToken w0 = Inr token \<longrightarrow>
          sent (snd (stored_syncEvent e w event)) = sent w0 @ [createRequest e token event]
        \<and> (\<forall>status j. server e (sent w0) (createRequest e token event) = Response status (Some j)
               \<and> ok status \<longrightarrow> fst (stored_syncEvent e w event) = Inr (j_id j)))
   \<and> (\<forall>w0 err. ensureValidToken e w = (True, w0) \<and> \<not> truthy (googleEventId event)
          \<and> stored_getAccessToken w0 = Inl err \<longrightarrow>
          stored_syncEvent e w event = (Inr Null, w0))
   \<and> (\<forall>w0 w0' token gid. ensureValidToken e w = (True, w0) \<and> ensureValidToken e w0 = (True, w0')
          \<and> googleEventId event = Str gid \<and> gid \<noteq> [] \<and> stored_getAccessToken w0' = Inr token \<longrightarrow>
          sent (snd (stored_syncEvent e w event)) = sent w0' @ [updateRequest e token gid event])
   \<and> (\<forall>w0 w0'. ensureValidToken e w = (True, w0) \<and> ensureValidToken e w0 = (False, w0')
          \<and> truthy (googleEventId event) \<longrightarrow>
          stored_syncEvent e w event = (Inr Null, w0'))
   \<and> (\<exists>pre. (\<forall>q \<in> set pre. tokenCall q)
          \<and> sent (snd (ensureValidToken e w)) = sent w @ pre)
   \<and> (\<exists>pre. (\<forall>q \<in> set pre. tokenCall q)
          \<and> (sent (snd (stored_syncEvent e w event)) = sent w @ pre
             \<or> (\<exists>token. \<not> truthy (googleEventId event)
                   \<and> sent (snd (stored_syncEvent e w event))
                       = sent w @ pre @ [createRequest e token event])
             \<or> (\<exists>token gid. googleEventId event = Str gid \<and> gid \<noteq> []
                   \<and> sent (snd (stored_syncEvent e w event))
                       = sent w @ pre @ [updateRequest e token gid event])))
   \<and> (\<forall>gid w1. \<not> truthy (googleEventId event) \<and> stored_syncEvent e w event = (Inr (Str gid), w1)
          \<and> gid \<noteq> [] \<longrightarrow>
          (\<exists>pre token pre2.
              (\<forall>q \<in> set pre. tokenCall q) \<and> (\<forall>q \<in> set pre2. tokenCall q)
            \<and> sent w1 = sent w @ pre @ [createRequest e token event]
            \<and> (sent (snd (stored_syncEvent e w1 (event \<lparr> googleEventId := Str gid \<rparr>)))
                  = sent w1 @ pre2
               \<or> (\<exists>token2. sent (snd (stored_syncEvent e w1 (event \<lparr> googleEventId := Str gid \<rparr>)))
                     = sent w1 @ pre2
                         @ [updateRequest e token2 gid (event \<lparr> googleEventId := Str gid \<rparr>)])))
        \<and> (\<forall>w2 w3 token2. ensureValidToken e w1 = (True, w2) \<and> ensureValidToken e w2 = (True, w3)
               \<and> stored_getAccessToken w3 = Inr token2 \<longrightarrow>
               sent (snd (stored_syncEvent e w1 (event \<lparr> googleEventId := Str gid \<rparr>)))
                 = sent w3 @ [updateRequest e token2 gid (event \<lparr> googleEventId := Str gid \<rparr>)]))"
proof (intro conjI allI impI)
  fix err assume "getAccessToken w = Inl err"
  then show "syncEvent e w event = (Null, w)" by (rule syncEvent_unauth)
next
  fix token assume "getAccessToken w = Inr token \<and> \<not> truthy (googleEventId event)"
  then show "sent (snd (syncEvent e w event)) = sent w @ [createRequest e token event]"
    by (simp add: syncEvent_create_sent)
next
  fix token status j
  assume "getAccessToken w = Inr token \<and> \<not> truthy (googleEventId event)"
    and "server e (sent w) (createRequest e token event) = Response status (Some j) \<and> ok status"
  then show "fst (syncEvent e w event) = j_id j"
    using syncEvent_create_result by blast
next
  fix token gid
  assume "getAccessToken w = Inr token \<and> googleEventId event = Str gid \<and> gid \<noteq> []"
  then show "sent (snd (syncEvent e w event)) = sent w @ [updateRequest e token gid event]"
    by (simp add: syncEvent_update_sent)
next
  fix gid w1
  assume a: "\<not> truthy (googleEventId event) \<and> syncEvent e w event = (Str gid, w1) \<and> gid \<noteq> []"
  then obtain token where t: "getAccessToken w = Inr token" and t1: "getAccessToken w1 = Inr token"
    using syncEvent_created_token [of event e w gid w1] by auto
  have s1: "sent w1 = sent w @ [createRequest e token event]"
    using syncEvent_create_sent [OF t, of event e] a by simp
  have "sent (snd (syncEvent e w1 (event \<lparr> googleEventId := Str gid \<rparr>)))
          = sent w1 @ [updateRequest e token gid (event \<lparr> googleEventId := Str gid \<rparr>)]"
    using a by (intro syncEvent_update_sent [OF t1]) simp_all
  with s1 t show "\<exists>token. getAccessToken w = Inr token \<and>
             sent (snd (syncEvent e w1 (event \<lparr> googleEventId := Str gid \<rparr>)))
               = sent w @ [createRequest e token event,
                           updateRequest e token gid (event \<lparr> googleEventId := Str gid \<rparr>)]"
    by simp
next
  fix w0 assume "ensureValidToken e w = (False, w0)"
  then show "stored_syncEvent e w event = (Inl NotConnected, w0)"
    by (rule stored_syncEvent_unchecked)
next
  fix w0 token
  assume "ensureValidToken e w = (True, w0) \<and> \<not> truthy (googleEventId event)
          \<and> stored_getAccessToken w0 = Inr token"
  then show "sent (snd (stored_syncEvent e w event)) = sent w0 @ [createRequest e token event]"
    by (simp add: stored_syncEvent_create_sent)
next
  fix w0 token status j
  assume "ensureValidToken e w = (True, w0) \<and> \<not> truthy (googleEventId event)
          \<and> stored_getAccessToken w0 = Inr token"
    and "server e (sent w0) (createRequest e token event) = Response status (Some j) \<and> ok status"
  then show "fst (stored_syncEvent e w event) = Inr (j_id j)"
    using stored_syncEvent_create_result by blast
next
  fix w0 err
  assume "ensureValidToken e w = (True, w0) \<and> \<not> truthy (googleEventId event)
          \<and> stored_getAccessToken w0 = Inl err"
  then show "stored_syncEvent e w event = (Inr Null, w0)"
    using stored_syncEvent_create_unauth by blast
next
  fix w0 w0' token gid
  assume "ensureValidToken e w = (True, w0) \<and> ensureValidToken e w0 = (True, w0')
          \<and> googleEventId event = Str gid \<and> gid \<noteq> [] \<and> stored_getAccessToken w0' = Inr token"
  then show "sent (snd (stored_syncEvent e w event)) = sent w0' @ [updateRequest e token gid event]"
    using stored_syncEvent_update_sent by blast
next
  fix w0 w0'
  assume "ensureValidToken e w = (True, w0) \<and> ensureValidToken e w0 = (False, w0')
          \<and> truthy (googleEventId event)"
  then show "stored_syncEvent e w event = (Inr Null, w0')"
    using stored_syncEvent_update_unchecked by blast
next
  from ensureValidToken_sent [of e w]
  show "\<exists>pre. (\<forall>q \<in> set pre. tokenCall q) \<and> sent (snd (ensureValidToken e w)) = sent w @ pre"
    by blast
next
  show "\<exists>pre. (\<forall>q \<in> set pre. tokenCall q)
          \<and> (sent (snd (stored_syncEvent e w event)) = sent w @ pre
             \<or> (\<exists>token. \<not> truthy (googleEventId event)
                   \<and> sent (snd (stored_syncEvent e w event))
                       = sent w @ pre @ [createRequest e token event])
             \<or> (\<exists>token gid. googleEventId event = Str gid \<and> gid \<noteq> []
                   \<and> sent (snd (stored_syncEvent e w event))
                       = sent w @ pre @ [updateRequest e token gid event]))"
    by (rule stored_syncEvent_shape)
next
  fix gid w1
  assume a: "\<not> truthy (googleEventId event) \<and> stored_syncEvent e w event = (Inr (Str gid), w1)
          \<and> gid \<noteq> []"
  then show "\<exists>pre token pre2.
              (\<forall>q \<in> set pre. tokenCall q) \<and> (\<forall>q \<in> set pre2. tokenCall q)
            \<and> sent w1 = sent w @ pre @ [createRequest e token event]
            \<and> (sent (snd (stored_syncEvent e w1 (event \<lparr> googleEventId := Str gid \<rparr>)))
                  = sent w1 @ pre2
               \<or> (\<exists>token2. sent (snd (stored_syncEvent e w1 (event \<lparr> googleEventId := Str gid \<rparr>)))
                     = sent w1 @ pre2
                         @ [updateRequest e token2 gid (event \<lparr> googleEventId := Str gid \<rparr>)]))"
    using stored_syncEvent_sequence [of event e w gid w1] by simp
  fix w2 w3 token2
  assume "ensureValidToken e w1 = (True, w2) \<and> ensureValidToken e w2 = (True, w3)
               \<and> stored_getAccessToken w3 = Inr token2"
  with a show "sent (snd (stored_syncEvent e w1 (event \<lparr> googleEventId := Str gid \<rparr>)))
                 = sent w3 @ [updateRequest e token2 gid (event \<lparr> googleEventId := Str gid \<rparr>)]"
    by (intro stored_syncEvent_update_sent [of e w1 w2 w3 _ gid token2]) simp_all
qed

lemma syncEvent_standup: "syncEvent utc world0 (standup utc)
   = (Str ''g1'', world0 \<lparr> sent := [createRequest utc ''token'' (standup utc)] \<rparr>)"
  by (simp add: syncEvent_def createEvent_def makeRequest_def getAccessToken_def fetch_def
      createRequest_def Let_def utc_def acceptAll_def ok_def standup_def world0_def)

lemma ensureValidToken_stored0:
  "ensureValidToken utc stored0 = (True, stored0 \<lparr> sent := [probeRequest ''token''] \<rparr>)"
  by (simp add: ensureValidToken_def present_def fetch_def probeRequest_def stored0_def world0_def
      utc_def acceptAll_def ok_def)

lemma stored_getAccessToken_stored0:
  "stored_getAccessToken (stored0 \<lparr> sent := s \<rparr>) = Inr ''token''"
  by (simp add: stored_getAccessToken_def present_def stored0_def world0_def)

lemma stored_syncEvent_standup:
  "stored_syncEvent utc stored0 (standup utc)
     = (Inr (Str ''g1''),
        stored0 \<lparr> sent := [probeRequest ''token'', createRequest utc ''token'' (standup utc)] \<rparr>)"
  by (simp add: stored_syncEvent_def ensureValidToken_stored0 stored_createEvent_def
      stored_makeRequest_def stored_getAccessToken_stored0 fetch_def createRequest_def Let_def
      standup_def)
     (simp add: utc_def acceptAll_def ok_def stored0_def world0_def)

lemma ensureValidToken_again:
  "ensureValidToken utc (stored0 \<lparr> sent := s \<rparr>)
     = (True, stored0 \<lparr> sent := s @ [probeRequest ''token''] \<rparr>)"
  by (simp add: ensureValidToken_def present_def fetch_def probeRequest_def stored0_def world0_def
      utc_def acceptAll_def ok_def)

lemma ensureValidToken_world0:
  "ensureValidToken utc world0 = (False, world0 \<lparr> popups := 1 \<rparr>)"
  by (simp add: ensureValidToken_def present_def requestNewTokens_def Let_def world0_def utc_def)

theorem syncEvent_dispatch_witness:
  "getAccessToken world0 = Inr ''token'' \<and> \<not> truthy (googleEventId (standup utc))
   \<and> syncEvent utc world0 (standup utc)
       = (Str ''g1'', world0 \<lparr> sent := [createRequest utc ''token'' (standup utc)] \<rparr>)
   \<and> sent (snd (syncEvent utc (world0 \<lparr> sent := [createRequest utc ''token'' (standup utc)] \<rparr>)
                  ((standup utc) \<lparr> googleEventId := Str ''g1'' \<rparr>)))
       = [createRequest utc ''token'' (standup utc),
          updateRequest utc ''token'' ''g1'' ((standup utc) \<lparr> googleEventId := Str ''g1'' \<rparr>)]
   \<and> sent (snd (syncEvent utc world0 (linkedStandup utc)))
       = [updateRequest utc ''token'' ''g1'' (linkedStandup utc)]
   \<and> getAccessToken (world0 \<lparr> sessionToken := None \<rparr>) = Inl TokenMissing
   \<and> syncEvent utc (world0 \<lparr> sessionToken := None \<rparr>) (standup utc)
       = (Null, world0 \<lparr> sessionToken := None \<rparr>)
   \<and> ensureValidToken utc stored0 = (True, stored0 \<lparr> sent := [probeRequest ''token''] \<rparr>)
   \<and> stored_syncEvent utc stored0 (standup utc)
       = (Inr (Str ''g1''),
          stored0 \<lparr> sent := [probeRequest ''token'', createRequest utc ''token'' (standup utc)] \<rparr>)
   \<and> sent (snd (stored_syncEvent utc
         (stored0 \<lparr> sent := [probeRequest ''token'', createRequest utc ''token'' (standup utc)] \<rparr>)
         (linkedStandup utc)))
       = [probeRequest ''token'', createRequest utc ''token'' (standup utc),
          probeRequest ''token'', probeRequest ''token'',
          updateRequest utc ''token'' ''g1'' (linkedStandup utc)]
   \<and> ensureValidToken utc world0 = (False, world0 \<lparr> popups := 1 \<rparr>)
   \<and> stored_syncEvent utc world0 (standup utc) = (Inl NotConnected, world0 \<lparr> popups := 1 \<rparr>)"
proof -
  have t: "getAccessToken (world0 \<lparr> sessionToken := None \<rparr>) = Inl TokenMissing"
    by (simp add: getAccessToken_def world0_def)
  have l: "googleEventId (linkedStandup utc) = Str ''g1''"
    by (simp add: linkedStandup_def)
  from syncEvent_dispatch [of world0 utc "standup utc"]
    syncEvent_dispatch [of world0 utc "linkedStandup utc"]
    syncEvent_dispatch [of "world0 \<lparr> sessionToken := None \<rparr>" utc "standup utc"]
    syncEvent_standup getAccessToken_world0 t l
  have a: "getAccessToken world0 = Inr ''token'' \<and> \<not> truthy (googleEventId (standup utc))
   \<and> syncEvent utc world0 (standup utc)
       = (Str ''g1'', world0 \<lparr> sent := [createRequest utc ''token'' (standup utc)] \<rparr>)
   \<and> sent (snd (syncEvent utc (world0 \<lparr> sent := [createRequest utc ''token'' (standup utc)] \<rparr>)
                  ((standup utc) \<lparr> googleEventId := Str ''g1'' \<rparr>)))
       = [createRequest utc ''token'' (standup utc),
          updateRequest utc ''token'' ''g1'' ((standup utc) \<lparr> googleEventId := Str ''g1'' \<rparr>)]
   \<and> sent (snd (syncEvent utc world0 (linkedStandup utc)))
       = [updateRequest utc ''token'' ''g1'' (linkedStandup utc)]
   \<and> getAccessToken (world0 \<lparr> sessionToken := None \<rparr>) = Inl TokenMissing
   \<and> syncEvent utc (world0 \<lparr> sessionToken := None \<rparr>) (standup utc)
       = (Null, world0 \<lparr> sessionToken := None \<rparr>)"
    by (simp add: standup_def world0_def)
  define w1 where "w1 = stored0 \<lparr> sent := [probeRequest ''token'', createRequest utc ''token'' (standup utc)] \<rparr>"
  have c1: "ensureValidToken utc w1
      = (True, stored0 \<lparr> sent := [probeRequest ''token'', createRequest utc ''token'' (standup utc),
                                  probeRequest ''token''] \<rparr>)"
    unfolding w1_def by (simp add: ensureValidToken_again)
  have c2: "ensureValidToken utc
       (stored0 \<lparr> sent := [probeRequest ''token'', createRequest utc ''token'' (standup utc),
                                  probeRequest ''token''] \<rparr>)
      = (True, stored0 \<lparr> sent := [probeRequest ''token'', createRequest utc ''token'' (standup utc),
                                  probeRequest ''token'', probeRequest ''token''] \<rparr>)"
    by (simp add: ensureValidToken_again)
  from syncEvent_dispatch [of w1 utc "linkedStandup utc"] c1 c2 l stored_getAccessToken_stored0
  have b: "sent (snd (stored_syncEvent utc w1 (linkedStandup utc)))
       = [probeRequest ''token'', createRequest utc ''token'' (standup utc),
          probeRequest ''token'', probeRequest ''token'',
          updateRequest utc ''token'' ''g1'' (linkedStandup utc)]"
    by simp
  from syncEvent_dispatch [of world0 utc "standup utc"] ensureValidToken_world0
  have c: "stored_syncEvent utc world0 (standup utc) = (Inl NotConnected, world0 \<lparr> popups := 1 \<rparr>)"
    by blast
  from a b c ensureValidToken_stored0 stored_syncEvent_standup ensureValidToken_world0
  show ?thesis unfolding w1_def by blast
qed

text \<open>
  C1 as stated fails: after a failed create the item keeps no identifier, and the next
  call sends a second create for the same item.
\<close>

theorem syncEvent_retry_counterexample:
  "fst (syncEvent flaky world0 (standup flaky)) = Null
   \<and> sent (snd (syncEvent flaky (snd (syncEvent flaky world0 (standup flaky))) (standup flaky)))
       = [createRequest flaky ''token'' (standup flaky), createRequest flaky ''token'' (standup flaky)]"
  by (simp add: syncEvent_def createEvent_def makeRequest_def getAccessToken_def fetch_def
      createRequest_def Let_def flaky_def utc_def failFirst_def acceptAll_def ok_def standup_def world0_def)

section \<open>Properties of the single-item sync and of deletion\<close>

lemma makeRequest_storeD:
  "makeRequest e w u m b = (r, w1) \<Longrightarrow>
   eventsCollection w1 = eventsCollection w \<and> notesCollection w1 = notesCollection w"
  using makeRequest_store [of e w u m b] by simp

lemma updateEvent_store:
  "eventsCollection (snd (updateEvent e w event)) = eventsCollection w \<and>
   notesCollection (snd (updateEvent e w event)) = notesCollection w"
  by (auto simp add: updateEvent_def Let_def split: jsid.splits prod.splits sum.splits
      dest: makeRequest_storeD)

lemma updateEvent_sent_cases:
  "googleEventId event = Str gid \<Longrightarrow>
   sent (snd (updateEvent e w event)) = sent w \<or>
   (\<exists>token. sent (snd (updateEvent e w event)) = sent w @ [updateRequest e token gid event])"
proof (cases "getAccessToken w")
  case (Inl err)
  assume g: "googleEventId event = Str gid"
  with Inl show ?thesis
    by (simp add: updateEvent_def makeRequest_unauth Let_def)
next
  case (Inr token)
  assume g: "googleEventId event = Str gid"
  show ?thesis
  proof (cases "gid = []")
    case True
    with g show ?thesis by (simp add: updateEvent_def)
  next
    case False
    with g Inr show ?thesis using updateEvent_sent by blast
  qed
qed

lemma syncEvent_linked:
  "truthy (googleEventId event) \<Longrightarrow>
   syncEvent e w event =
     (case updateEvent e w event of (Inl err, w1) \<Rightarrow> (Null, w1) | (Inr u, w1) \<Rightarrow> (googleEventId event, w1))"
  by (simp add: syncEvent_def)

lemma updateEvent_failure_token:
  assumes "googleEventId event = Str gid" and "gid \<noteq> []"
    and "updateEvent e w event = (Inl err, w1)"
  shows "(\<forall>token. getAccessToken w = Inr token \<longrightarrow>
            sent w1 = sent w @ [updateRequest e token gid event]
          \<and> (err \<noteq> AccessExpired \<longrightarrow> getAccessToken w1 = Inr token)
          \<and> (err = AccessExpired \<longrightarrow> getAccessToken w1 = Inl TokenMissing))
       \<and> (\<forall>err0. getAccessToken w = Inl err0 \<longrightarrow> w1 = w)"
proof (intro conjI allI impI)
  fix token assume t: "getAccessToken w = Inr token"
  from updateEvent_sent [OF t assms(1,2), of e] assms(3)
  show "sent w1 = sent w @ [updateRequest e token gid event]" by simp
  have m: "makeRequest e w (eventUrl gid) PATCH (Some (convertToGoogleEvent e event)) = (Inl err, w1)"
    using assms by (simp add: updateEvent_def Let_def split: prod.splits sum.splits)
  { assume "err \<noteq> AccessExpired"
    with m t show "getAccessToken w1 = Inr token"
      by (auto simp add: makeRequest_def fetch_def getAccessToken_def
          split: response.splits option.splits if_splits) }
  { assume "err = AccessExpired"
    with m t show "getAccessToken w1 = Inl TokenMissing"
      by (auto simp add: makeRequest_def fetch_def getAccessToken_def
          split: response.splits option.splits if_splits) }
next
  fix err0 assume "getAccessToken w = Inl err0"
  with assms show "w1 = w"
    by (simp add: updateEvent_def makeRequest_unauth Let_def)
qed

text \<open>
  C3. For an item whose \<^verbatim>\<open>googleEventId\<close> is set, when the remote update fails
  \<^verbatim>\<open>syncEvent\<close> returns \<^verbatim>\<open>null\<close> and not the identifier, sends no create, and
  leaves the local store, hence the stored identifier, as it was. The failed call has sent
  its one update when a user and a token were present, and the token is still there
  afterwards unless the failure was the status 401, which removes it. Any later sync of
  the item with a user and a token sends exactly one update addressed by the same
  identifier, and never a create; without them it stops before the network and returns
  \<^verbatim>\<open>null\<close>.
\<close>

theorem syncEvent_update_failure:
  assumes "truthy (googleEventId event)" and "updateEvent e w event = (Inl err, w1)"
  shows "syncEvent e w event = (Null, w1)
    \<and> filter (\<lambda>r. httpMethod r = POST) (sent w1) = filter (\<lambda>r. httpMethod r = POST) (sent w)
    \<and> eventsCollection w1 = eventsCollection w
    \<and> (\<exists>gid. googleEventId event = Str gid \<and> gid \<noteq> []
          \<and> (\<forall>token. getAccessToken w = Inr token \<longrightarrow>
                 sent w1 = sent w @ [updateRequest e token gid event]
               \<and> (err \<noteq> AccessExpired \<longrightarrow> getAccessToken w1 = Inr token)
               \<and> (err = AccessExpired \<longrightarrow> getAccessToken w1 = Inl TokenMissing))
          \<and> (\<forall>err0. getAccessToken w = Inl err0 \<longrightarrow> w1 = w)
          \<and> (\<forall>e2 w2 token. getAccessToken w2 = Inr token \<longrightarrow>
                 sent (snd (syncEvent e2 w2 event)) = sent w2 @ [updateRequest e2 token gid event])
          \<and> (\<forall>e2 w2 err2. getAccessToken w2 = Inl err2 \<longrightarrow> syncEvent e2 w2 event = (Null, w2)))"
proof -
  from assms(1) obtain gid where g: "googleEventId event = Str gid" and ne: "gid \<noteq> []"
    by (cases "googleEventId event") simp_all
  have r: "syncEvent e w event = (Null, w1)"
    using assms by (simp add: syncEvent_linked)
  have "sent w1 = sent w \<or> (\<exists>token. sent w1 = sent w @ [updateRequest e token gid event])"
    using updateEvent_sent_cases [OF g, of e w] assms(2) by simp
  then have p: "filter (\<lambda>r. httpMethod r = POST) (sent w1) = filter (\<lambda>r. httpMethod r = POST) (sent w)"
    by (auto simp add: updateRequest_def)
  have c: "eventsCollection w1 = eventsCollection w"
    using updateEvent_store [of e w event] assms(2) by simp
  note t = updateEvent_failure_token [OF g ne assms(2)]
  have l: "getAccessToken w2 = Inr token \<Longrightarrow>
      sent (snd (syncEvent e2 w2 event)) = sent w2 @ [updateRequest e2 token gid event]" for e2 w2 token
    using g ne by (simp add: syncEvent_update_sent)
  have u: "getAccessToken w2 = Inl err2 \<Longrightarrow> syncEvent e2 w2 event = (Null, w2)" for e2 w2 err2
    by (rule syncEvent_unauth)
  from r p c g ne t l u show ?thesis by blast
qed

lemma updateEvent_down:
  "updateEvent down world0 (linkedStandup down)
     = (Inl (ApiError 500), world0 \<lparr> sent := [updateRequest down ''token'' ''g1'' (linkedStandup down)] \<rparr>)"
  by (simp add: updateEvent_def makeRequest_def getAccessToken_def fetch_def updateRequest_def
      Let_def down_def utc_def rejectAll_def ok_def linkedStandup_def standup_def world0_def)

lemma updateEvent_expired:
  "updateEvent expired world0 (linkedStandup expired)
     = (Inl AccessExpired,
        world0 \<lparr> sessionToken := None, sent := [updateRequest expired ''token'' ''g1'' (linkedStandup expired)] \<rparr>)"
  by (simp add: updateEvent_def makeRequest_def getAccessToken_def fetch_def updateRequest_def
      Let_def expired_def utc_def unauthorized_def ok_def linkedStandup_def standup_def world0_def)

theorem syncEvent_update_failure_witness:
  "truthy (googleEventId (linkedStandup down))
   \<and> updateEvent down world0 (linkedStandup down)
       = (Inl (ApiError 500), world0 \<lparr> sent := [updateRequest down ''token'' ''g1'' (linkedStandup down)] \<rparr>)
   \<and> syncEvent down world0 (linkedStandup down)
       = (Null, world0 \<lparr> sent := [updateRequest down ''token'' ''g1'' (linkedStandup down)] \<rparr>)
   \<and> getAccessToken (world0 \<lparr> sent := [updateRequest down ''token'' ''g1'' (linkedStandup down)] \<rparr>)
       = Inr ''token''
   \<and> sent (snd (syncEvent down
         (world0 \<lparr> sent := [updateRequest down ''token'' ''g1'' (linkedStandup down)] \<rparr>)
         (linkedStandup down)))
       = [updateRequest down ''token'' ''g1'' (linkedStandup down),
          updateRequest down ''token'' ''g1'' (linkedStandup down)]
   \<and> updateEvent expired world0 (linkedStandup expired)
       = (Inl AccessExpired,
          world0 \<lparr> sessionToken := None,
                   sent := [updateRequest expired ''token'' ''g1'' (linkedStandup expired)] \<rparr>)
   \<and> syncEvent utc
         (world0 \<lparr> sessionToken := None,
                  sent := [updateRequest expired ''token'' ''g1'' (linkedStandup expired)] \<rparr>)
         (linkedStandup expired)
       = (Null, world0 \<lparr> sessionToken := None,
                         sent := [updateRequest expired ''token'' ''g1'' (linkedStandup expired)] \<rparr>)"
proof -
  have t: "truthy (googleEventId (linkedStandup down))"
    by (simp add: linkedStandup_def)
  have t': "truthy (googleEventId (linkedStandup expired))"
    by (simp add: linkedStandup_def)
  have g: "getAccessToken world0 = Inr ''token''"
    by (simp add: getAccessToken_def world0_def)
  note a = syncEvent_update_failure [OF t updateEvent_down]
  note b = syncEvent_update_failure [OF t' updateEvent_expired]
  from a g have a1: "getAccessToken (world0 \<lparr> sent := [updateRequest down ''token'' ''g1'' (linkedStandup down)] \<rparr>)
       = Inr ''token''" by auto
  from a a1 have a2: "sent (snd (syncEvent down
         (world0 \<lparr> sent := [updateRequest down ''token'' ''g1'' (linkedStandup down)] \<rparr>)
         (linkedStandup down)))
       = [updateRequest down ''token'' ''g1'' (linkedStandup down),
          updateRequest down ''token'' ''g1'' (linkedStandup down)]"
    by (auto simp add: linkedStandup_def)
  from b g have b1: "getAccessToken (world0 \<lparr> sessionToken := None,
                  sent := [updateRequest expired ''token'' ''g1'' (linkedStandup expired)] \<rparr>)
       = Inl TokenMissing" by auto
  from b b1 have b2: "syncEvent utc
         (world0 \<lparr> sessionToken := None,
                  sent := [updateRequest expired ''token'' ''g1'' (linkedStandup expired)] \<rparr>)
         (linkedStandup expired)
       = (Null, world0 \<lparr> sessionToken := None,
                         sent := [updateRequest expired ''token'' ''g1'' (linkedStandup expired)] \<rparr>)"
    by blast
  from a t updateEvent_down a1 a2 updateEvent_expired b2 show ?thesis
    by simp
qed

lemma deleteEvent_store:
  "eventsCollection (snd (deleteEvent e w gid)) = eventsCollection w \<and>
   notesCollection (snd (deleteEvent e w gid)) = notesCollection w"
  by (auto simp add: deleteEvent_def split: prod.splits sum.splits dest: makeRequest_storeD)

lemma deleteEvent_unauth:
  "getAccessToken w = Inl err \<Longrightarrow> deleteEvent e w gid = (Inl err, w)"
  by (simp add: deleteEvent_def makeRequest_unauth)

text \<open>
  C4. When the store accepts the delete of an event that carries a
  \<^verbatim>\<open>googleEventId\<close>, the document is removed from the local store whatever the
  remote calendar answers, and exactly one remote delete, addressed by that identifier, is
  sent (none when the user or the token is missing, where the call stops before the
  network).
\<close>

theorem handleEventDelete_event:
  assumes "storeUp w"
    and "find (\<lambda>ev. id' ev = Some eventId) events = Some ev"
    and "googleEventId ev = Str gid" and "gid \<noteq> []"
  shows "fst (handleEventDelete e w events eventId False) = Success ''Event deleted successfully''
    \<and> eventsCollection (snd (handleEventDelete e w events eventId False))
        = filter (\<lambda>kv. fst kv \<noteq> eventId) (eventsCollection w)
    \<and> eventId \<notin> fst ` set (eventsCollection (snd (handleEventDelete e w events eventId False)))
    \<and> (\<forall>token. getAccessToken w = Inr token \<longrightarrow>
          sent (snd (handleEventDelete e w events eventId False)) = sent w @ [deleteRequest token gid])
    \<and> (\<forall>err. getAccessToken w = Inl err \<longrightarrow>
          sent (snd (handleEventDelete e w events eventId False)) = sent w)"
proof -
  define w1 where "w1 = w \<lparr> eventsCollection := filter (\<lambda>kv. fst kv \<noteq> eventId) (eventsCollection w) \<rparr>"
  have d: "deleteDoc w ''events'' eventId = (Inr (), w1)"
    using assms(1) by (simp add: deleteDoc_def setCollection_def getCollection_def w1_def)
  have h: "handleEventDelete e w events eventId False
             = (Success ''Event deleted successfully'', snd (deleteEvent e w1 gid))"
    using assms d by (simp add: handleEventDelete_def Let_def)
  have t: "getAccessToken w1 = getAccessToken w"
    by (simp add: w1_def getAccessToken_def)
  have s: "sent w1 = sent w" by (simp add: w1_def)
  have c: "eventsCollection (snd (deleteEvent e w1 gid)) = filter (\<lambda>kv. fst kv \<noteq> eventId) (eventsCollection w)"
    using deleteEvent_store [of e w1 gid] by (simp add: w1_def)
  have a: "getAccessToken w = Inr token \<Longrightarrow> sent (snd (deleteEvent e w1 gid)) = sent w @ [deleteRequest token gid]" for token
    using deleteEvent_sent [of w1 token e gid] t s by simp
  have b: "getAccessToken w = Inl err \<Longrightarrow> sent (snd (deleteEvent e w1 gid)) = sent w" for err
    using deleteEvent_unauth [of w1 err e gid] t s by simp
  from h c a b show ?thesis by auto
qed

lemma eventsList_world1: "eventsList (world1 down) = [linkedStandup down]"
  by (simp add: eventsList_def world1_def world0_def List.map_filter_simps eventOfDoc_def standupDoc_def
      linkedStandup_def standup_def orElse_def)

theorem handleEventDelete_event_witness:
  "storeUp (world1 down)
   \<and> find (\<lambda>ev. id' ev = Some ''doc1'') (eventsList (world1 down)) = Some (linkedStandup down)
   \<and> eventsCollection (snd (handleEventDelete down (world1 down) (eventsList (world1 down)) ''doc1'' False)) = []
   \<and> sent (snd (handleEventDelete down (world1 down) (eventsList (world1 down)) ''doc1'' False))
       = [deleteRequest ''token'' ''g1'']
   \<and> fst (deleteEvent down (world1 down) ''g1'') = Inl (ApiError 500)"
proof -
  have a: "storeUp (world1 down)" by (simp add: world1_def world0_def)
  have b: "find (\<lambda>ev. id' ev = Some ''doc1'') (eventsList (world1 down)) = Some (linkedStandup down)"
    by (simp add: eventsList_world1) (simp add: linkedStandup_def standup_def)
  have c: "googleEventId (linkedStandup down) = Str ''g1''" by (simp add: linkedStandup_def)
  have t: "getAccessToken (world1 down) = Inr ''token''"
    by (simp add: getAccessToken_def world1_def world0_def)
  have f: "fst (deleteEvent down (world1 down) ''g1'') = Inl (ApiError 500)"
    by (simp add: deleteEvent_def makeRequest_def getAccessToken_def fetch_def down_def utc_def
        rejectAll_def ok_def world1_def world0_def)
  from handleEventDelete_event [OF a b c, of down] t a b f show ?thesis
    by (simp add: world1_def world0_def)
qed

section \<open>Properties of the all-day translation\<close>

lemma setDate_next_day: "setDate e t (getDate e t + 1) = t + msPerDay"
  by (simp add: setDate_def UTC_def LocalTime_def Day_def TimeWithinDay_def Let_def algebra_simps)

lemma Day_next: "Day (t + msPerDay) = Day t + 1"
  by (simp add: Day_def msPerDay_def)

text \<open>
  The translation of \<^verbatim>\<open>googleCalendarService.ts\<close>: for every all-day item and every
  offset of the time zone, the start date is the local date of the start and the end date
  is the local date of the end plus one day.
\<close>

lemma convertToGoogleEvent_allDay_dates:
  assumes "allDay event"
  shows "gstart (convertToGoogleEvent e event)
           = DateOnly (civil_from_days (Day (LocalTime e (start event))))"
    and "gend (convertToGoogleEvent e event)
           = DateOnly (civil_from_days (Day (LocalTime e (end' event)) + 1))"
proof -
  show "gstart (convertToGoogleEvent e event)
           = DateOnly (civil_from_days (Day (LocalTime e (start event))))"
    using assms
    by (simp add: convertToGoogleEvent_def Let_def isoDate_def getTimezoneOffset_def LocalTime_def)
  have "end' event + msPerDay - tzOffset e * 60000 = LocalTime e (end' event) + msPerDay"
    by (simp add: LocalTime_def)
  then have "Day (end' event + msPerDay - tzOffset e * 60000) = Day (LocalTime e (end' event)) + 1"
    by (simp only: Day_next)
  then show "gend (convertToGoogleEvent e event)
           = DateOnly (civil_from_days (Day (LocalTime e (end' event)) + 1))"
    using assms
    by (simp add: convertToGoogleEvent_def Let_def isoDate_def getTimezoneOffset_def setDate_next_day)
qed

lemma LocalTime_UTC: "LocalTime e (UTC e l) = l"
  by (simp add: LocalTime_def UTC_def)

lemma LocalTime_newDateLocal:
  "LocalTime e (newDateLocal e c (h, m, s))
     = days_from_civil c * msPerDay + ((h * 60 + m) * 60 + s) * 1000"
  by (simp add: newDateLocal_def LocalTime_UTC)

lemma days_from_civil_examples:
  "days_from_civil (2024, 6, 1) = 19875"
  "days_from_civil (2024, 6, 3) = 19877"
  by code_simp+

lemma civil_from_days_examples:
  "civil_from_days 19874 = (2024, 5, 31)"
  "civil_from_days 19875 = (2024, 6, 1)"
  "civil_from_days 19877 = (2024, 6, 3)"
  "civil_from_days 19878 = (2024, 6, 4)"
  by code_simp+

lemma vacation_local_dates:
  "civil_from_days (Day (LocalTime e (start (vacation e)))) = (2024, 6, 1)"
  "civil_from_days (Day (LocalTime e (end' (vacation e)))) = (2024, 6, 3)"
  "civil_from_days (Day (LocalTime e (end' (vacation e))) + 1) = (2024, 6, 4)"
  by (simp_all add: vacation_def LocalTime_newDateLocal days_from_civil_examples Day_def
      msPerDay_def civil_from_days_examples)

lemma convertToGoogleEvent_vacation:
  "gstart (convertToGoogleEvent e (vacation e)) = DateOnly (2024, 6, 1)"
  "gend (convertToGoogleEvent e (vacation e)) = DateOnly (2024, 6, 4)"
  using convertToGoogleEvent_allDay_dates [of "vacation e" e] vacation_local_dates [of e]
  by (simp_all add: vacation_def)

text \<open>
  C2 (failing input). The translation of \<^verbatim>\<open>googleCalendar.ts\<close> emits the UTC date of
  the end itself. For the all-day item from 2024-06-01 to 2024-06-03 in a zone of offset
  zero, where the local end date plus one day is 2024-06-04, it emits the end date
  2024-06-03; east of Greenwich it emits the day before the local start as start date.
\<close>

theorem gapi_convertToGoogleEvent_allDay_end:
  "allDay (vacation utc)
   \<and> civil_from_days (Day (LocalTime utc (end' (vacation utc))) + 1) = (2024, 6, 4)
   \<and> gend (gapi_convertToGoogleEvent utc (vacation utc)) = DateOnly (2024, 6, 3)
   \<and> civil_from_days (Day (LocalTime kolkata (start (vacation kolkata)))) = (2024, 6, 1)
   \<and> gstart (gapi_convertToGoogleEvent kolkata (vacation kolkata)) = DateOnly (2024, 5, 31)"
  by (simp add: vacation_local_dates)
     (simp add: gapi_convertToGoogleEvent_def vacation_def newDateLocal_def UTC_def isoDate_def
        Day_def msPerDay_def days_from_civil_examples civil_from_days_examples utc_def kolkata_def)

section \<open>Properties of the batch reconciliation\<close>

lemma mergeGoogleEvents_append:
  "\<exists>new. mergeGoogleEvents syncedEvents googleEvents = syncedEvents @ new
      \<and> set new \<subseteq> set googleEvents
      \<and> distinct (map googleEventId new)
      \<and> googleEventId ` set new \<inter> googleEventId ` set syncedEvents = {}"
proof (induction googleEvents arbitrary: syncedEvents)
  case Nil
  then show ?case by simp
next
  case (Cons g gs)
  show ?case
  proof (cases "list_ex (\<lambda>local. googleEventId local = googleEventId g) syncedEvents")
    case True
    from Cons.IH [of syncedEvents] obtain new where
      "mergeGoogleEvents syncedEvents gs = syncedEvents @ new" "set new \<subseteq> set gs"
      "distinct (map googleEventId new)"
      "googleEventId ` set new \<inter> googleEventId ` set syncedEvents = {}"
      by blast
    with True show ?thesis by (intro exI [of _ new]) auto
  next
    case False
    from Cons.IH [of "syncedEvents @ [g]"] obtain new where n:
      "mergeGoogleEvents (syncedEvents @ [g]) gs = (syncedEvents @ [g]) @ new" "set new \<subseteq> set gs"
      "distinct (map googleEventId new)"
      "googleEventId ` set new \<inter> googleEventId ` set (syncedEvents @ [g]) = {}"
      by blast
    from False have f: "googleEventId g \<notin> googleEventId ` set syncedEvents"
      by (auto simp add: list_ex_iff)
    from n(4) have "googleEventId g \<notin> googleEventId ` set new" by auto
    with n f False show ?thesis by (intro exI [of _ "g # new"]) auto
  qed
qed

lemma eventKey_Str: "googleEventId ev = Str gid \<Longrightarrow> eventKey ev = Inl gid"
  by (simp add: eventKey_def)

lemma eventKey_eq_remote:
  "googleEventId g = Str gid \<Longrightarrow> eventKey ev = eventKey g \<Longrightarrow> googleEventId ev = googleEventId g"
  by (cases "googleEventId ev") (simp_all add: eventKey_def)

lemma distinct_keys_append:
  assumes "distinct (map eventKey syncedEvents)"
    and "distinct (map googleEventId new)"
    and "googleEventId ` set new \<inter> googleEventId ` set syncedEvents = {}"
    and "\<forall>g \<in> set new. \<exists>gid. googleEventId g = Str gid"
  shows "distinct (map eventKey (syncedEvents @ new))"
proof -
  have "inj_on eventKey (set new)"
  proof (rule inj_onI)
    fix x y assume "x \<in> set new" "y \<in> set new" "eventKey x = eventKey y"
    with assms(4) have "googleEventId x = googleEventId y"
      using eventKey_eq_remote by blast
    with assms(2) \<open>x \<in> set new\<close> \<open>y \<in> set new\<close> show "x = y"
      by (simp add: distinct_map inj_on_def)
  qed
  moreover have "distinct new" using assms(2) by (simp add: distinct_map)
  ultimately have d: "distinct (map eventKey new)" by (simp add: distinct_map)
  have "eventKey ` set syncedEvents \<inter> eventKey ` set new = {}"
  proof (rule ccontr)
    assume "eventKey ` set syncedEvents \<inter> eventKey ` set new \<noteq> {}"
    then obtain k where "k \<in> eventKey ` set syncedEvents" "k \<in> eventKey ` set new"
      by blast
    then obtain l g where lg: "l \<in> set syncedEvents" "g \<in> set new" "eventKey l = eventKey g"
      by auto
    with assms(4) have "googleEventId l = googleEventId g"
      using eventKey_eq_remote by blast
    with lg assms(3) show False by auto
  qed
  with assms(1) d show ?thesis by auto
qed

lemma convertFromGoogleEvent_id: "googleEventId (convertFromGoogleEvent e g) = Str (r_id g)"
  by (simp add: convertFromGoogleEvent_def Let_def)

text \<open>
  C5 (amended). The merge appends a fetched remote event only if no item already in the
  result, local or appended before, carries the same \<^verbatim>\<open>googleEventId\<close>: the result is
  the synced local items followed by fetched events whose identifiers are pairwise distinct
  and differ from every identifier of a local item. So the keys of the merged result are
  pairwise distinct whenever the keys of the synced local items are; duplicates among the
  local items themselves are kept.
\<close>

theorem mergeGoogleEvents_no_duplicates:
  "\<exists>new. mergeGoogleEvents syncedEvents (map (convertFromGoogleEvent e) items) = syncedEvents @ new
      \<and> set new \<subseteq> convertFromGoogleEvent e ` set items
      \<and> distinct (map googleEventId new)
      \<and> (\<forall>g \<in> set new. \<forall>local \<in> set syncedEvents. googleEventId local \<noteq> googleEventId g)
      \<and> (distinct (map eventKey syncedEvents) \<longrightarrow> distinct (map eventKey (syncedEvents @ new)))"
proof -
  from mergeGoogleEvents_append [of syncedEvents "map (convertFromGoogleEvent e) items"]
  obtain new where n:
    "mergeGoogleEvents syncedEvents (map (convertFromGoogleEvent e) items) = syncedEvents @ new"
    "set new \<subseteq> set (map (convertFromGoogleEvent e) items)"
    "distinct (map googleEventId new)"
    "googleEventId ` set new \<inter> googleEventId ` set syncedEvents = {}"
    by blast
  from n(2) have r: "\<forall>g \<in> set new. \<exists>gid. googleEventId g = Str gid"
    using convertFromGoogleEvent_id by auto
  have k: "distinct (map eventKey syncedEvents) \<longrightarrow> distinct (map eventKey (syncedEvents @ new))"
    using distinct_keys_append [OF _ n(3) n(4) r] by blast
  from n(4) have "\<forall>g \<in> set new. \<forall>local \<in> set syncedEvents. googleEventId local \<noteq> googleEventId g"
    by (metis disjoint_iff imageI)
  with n k show ?thesis by (intro exI [of _ new]) simp
qed

theorem mergeGoogleEvents_no_duplicates_witness:
  "distinct (map eventKey [linkedStandup utc])
   \<and> mergeGoogleEvents [linkedStandup utc] (map (convertFromGoogleEvent utc) [remoteStandup, remoteHoliday])
       = [linkedStandup utc, convertFromGoogleEvent utc remoteHoliday]
   \<and> distinct (map eventKey
         (mergeGoogleEvents [linkedStandup utc]
            (map (convertFromGoogleEvent utc) [remoteStandup, remoteHoliday])))"
proof -
  have d: "distinct (map eventKey [linkedStandup utc])" by simp
  from mergeGoogleEvents_no_duplicates [of "[linkedStandup utc]" utc "[remoteStandup, remoteHoliday]"]
  obtain new where n:
    "mergeGoogleEvents [linkedStandup utc] (map (convertFromGoogleEvent utc) [remoteStandup, remoteHoliday])
       = [linkedStandup utc] @ new"
    "distinct (map eventKey [linkedStandup utc]) \<longrightarrow> distinct (map eventKey ([linkedStandup utc] @ new))"
    by blast
  have m: "mergeGoogleEvents [linkedStandup utc] (map (convertFromGoogleEvent utc) [remoteStandup, remoteHoliday])
       = [linkedStandup utc, convertFromGoogleEvent utc remoteHoliday]"
    by (simp add: convertFromGoogleEvent_id linkedStandup_def remoteStandup_def remoteHoliday_def)
  from d n m show ?thesis by simp
qed

text \<open>
  C5 as stated fails: two local documents linked to the same remote event both stay in the
  merged result, which then holds the same key twice.
\<close>

theorem gapi_syncEvents_duplicates_counterexample:
  "fst (gapi_syncEvents utc world0 [linkedStandup utc, linkedCopy utc])
     = Inr [linkedStandup utc, linkedCopy utc]
   \<and> eventKey (linkedStandup utc) = eventKey (linkedCopy utc)
   \<and> \<not> distinct (map eventKey [linkedStandup utc, linkedCopy utc])"
  by (simp add: gapi_syncEvents_def gapi_getEvents_def gapi_syncLocal_def gapi_updateEvent_def
      gapi_request_def fetch_def utc_def acceptAll_def ok_def world0_def Let_def
      linkedCopy_def linkedStandup_def eventKey_def)

section \<open>Notes stay local\<close>

lemma syncEach_append: "syncEach e w (xs @ ys) = syncEach e (syncEach e w xs) ys"
  by (induction xs arbitrary: w) simp_all

lemma gapi_syncLocal_note: "isNote note \<Longrightarrow> gapi_syncLocal e w note = (note, w)"
  by (simp add: gapi_syncLocal_def)

lemma gapi_syncLocals_append:
  "gapi_syncLocals e w (xs @ ys) =
     (fst (gapi_syncLocals e w xs) @ fst (gapi_syncLocals e (snd (gapi_syncLocals e w xs)) ys),
      snd (gapi_syncLocals e (snd (gapi_syncLocals e w xs)) ys))"
  by (induction xs arbitrary: w) (simp_all split: prod.splits)

lemma gapi_syncLocals_note:
  "isNote note \<Longrightarrow>
   snd (gapi_syncLocals e w (xs @ note # ys)) = snd (gapi_syncLocals e w (xs @ ys))"
  by (simp add: gapi_syncLocals_append gapi_syncLocal_note split: prod.splits)

lemma gapi_syncEvents_note:
  assumes "isNote note"
  shows "snd (gapi_syncEvents e w (xs @ note # ys)) = snd (gapi_syncEvents e w (xs @ ys))"
proof (cases "isSignedIn w")
  case False
  then show ?thesis by (simp add: gapi_syncEvents_def)
next
  case True
  show ?thesis
  proof (cases "gapi_getEvents e w (syncWindow e)")
    case (Pair r w1)
    show ?thesis
    proof (cases r)
      case (Inl err)
      with Pair True show ?thesis by (simp add: gapi_syncEvents_def)
    next
      case (Inr googleEvents)
      with Pair True gapi_syncLocals_note [OF assms, of e w1 xs ys] show ?thesis
        by (auto simp add: gapi_syncEvents_def split: prod.splits)
    qed
  qed
qed

lemma deleteDoc_sent: "sent (snd (deleteDoc w c k)) = sent w"
  by (simp add: deleteDoc_def setCollection_def)

lemma updateDoc_sent: "sent (snd (updateDoc w c k p)) = sent w"
  by (simp add: updateDoc_def setCollection_def)

lemma addDoc_sent: "sent (snd (addDoc e w c d)) = sent w"
  by (simp add: addDoc_def setCollection_def Let_def)

lemma handleEventDelete_note: "sent (snd (handleEventDelete e w events eventId True)) = sent w"
  using deleteDoc_sent [of w "''notes''" eventId]
  by (auto simp add: handleEventDelete_def Let_def split: prod.splits sum.splits option.splits jsid.splits)

lemma onDelete_note: "isNote note \<Longrightarrow> sent (snd (onDelete e w events note)) = sent w"
  by (simp add: onDelete_def handleEventDelete_note split: option.splits)

lemma submitCreate_note: "f_isNote f \<Longrightarrow> sent (snd (submitCreate e w f)) = sent w"
  using addDoc_sent [of e w "collectionName f" "eventData e f"]
  by (auto simp add: submitCreate_def Let_def split: prod.splits sum.splits)

lemma submitUpdate_note: "f_isNote f \<Longrightarrow> sent (snd (submitUpdate e w f k)) = sent w"
  using updateDoc_sent [of w "collectionName f" k "eventData e f"]
  by (auto simp add: submitUpdate_def Let_def split: prod.splits sum.splits)

lemma handleSubmit_note: "f_isNote f \<Longrightarrow> sent (snd (handleSubmit e w f)) = sent w"
  by (simp add: handleSubmit_def submitCreate_note submitUpdate_note split: option.splits)

text \<open>
  C6. For an item with \<^verbatim>\<open>isNote\<close>, no remote call is made. The sync handler of the
  dashboard behaves as if the note were not in the list, so \<^verbatim>\<open>syncEvent\<close> is never
  invoked for it; the batch sync pushes the note unchanged without a call, and the calls
  it sends are those it sends without the note; deleting the note through the calendar
  panel sends nothing; and saving a note in the editor sends nothing.
\<close>

theorem notes_never_remote:
  assumes "isNote note"
  shows "handleSyncCalendar e w (xs @ note # ys) = handleSyncCalendar e w (xs @ ys)
    \<and> handleSyncCalendar e w [note] = (Success ''Calendar synced successfully'', w)
    \<and> gapi_syncLocal e w note = (note, w)
    \<and> snd (gapi_syncEvents e w (xs @ note # ys)) = snd (gapi_syncEvents e w (xs @ ys))
    \<and> sent (snd (onDelete e w events note)) = sent w
    \<and> (\<forall>f. f_isNote f \<longrightarrow> sent (snd (handleSubmit e w f)) = sent w)"
  using assms
  by (simp add: handleSyncCalendar_def gapi_syncLocal_note gapi_syncEvents_note onDelete_note
      handleSubmit_note)

theorem notes_never_remote_witness:
  "isNote (memo utc)
   \<and> handleSyncCalendar utc world0 [standup utc, memo utc] = handleSyncCalendar utc world0 [standup utc]
   \<and> sent (snd (handleSyncCalendar utc world0 [memo utc])) = []
   \<and> sent (snd (onDelete utc world0 [memo utc] (memo utc))) = []
   \<and> f_isNote memoForm \<and> sent (snd (handleSubmit utc world0 memoForm)) = []"
proof -
  have n: "isNote (memo utc)" by (simp add: memo_def)
  have f: "f_isNote memoForm" by (simp add: memoForm_def)
  have s: "sent world0 = []" by (simp add: world0_def)
  from notes_never_remote [OF n, of utc world0 "[standup utc]" "[]" "[memo utc]"] n f s
  show ?thesis by simp
qed

section \<open>Failed items stay in the merged result\<close>

lemma gapi_request_sent:
  "gapi_request e w req = (r, w1) \<Longrightarrow>
   sent w1 = sent w @ [req] \<and> isSignedIn w1 = isSignedIn w"
  by (auto simp add: gapi_request_def fetch_def split: response.splits if_splits)

lemma gapi_createEvent_sent:
  "isSignedIn w \<Longrightarrow>
   sent (snd (gapi_createEvent e w event)) = sent w @ [gapi_createRequest e event]"
  by (auto simp add: gapi_createEvent_def gapi_createRequest_def Let_def
      split: prod.splits sum.splits option.splits dest: gapi_request_sent)

lemma gapi_createEvent_inv:
  "isSignedIn (snd (gapi_createEvent e w event)) = isSignedIn w
   \<and> set (sent w) \<subseteq> set (sent (snd (gapi_createEvent e w event)))"
  by (auto simp add: gapi_createEvent_def Let_def
      split: prod.splits sum.splits option.splits dest!: gapi_request_sent)

lemma gapi_updateEvent_inv:
  "isSignedIn (snd (gapi_updateEvent e w gid event)) = isSignedIn w
   \<and> set (sent w) \<subseteq> set (sent (snd (gapi_updateEvent e w gid event)))"
  by (auto simp add: gapi_updateEvent_def Let_def
      split: prod.splits sum.splits dest!: gapi_request_sent)

lemma gapi_syncLocals_Cons:
  "gapi_syncLocals e w (x # l) =
     (fst (gapi_syncLocal e w x) # fst (gapi_syncLocals e (snd (gapi_syncLocal e w x)) l),
      snd (gapi_syncLocals e (snd (gapi_syncLocal e w x)) l))"
  by (simp split: prod.splits)

lemma gapi_syncLocal_snd:
  "snd (gapi_syncLocal e w x) =
     (if isNote x then w
      else case googleEventId x of
             Str gid \<Rightarrow> if gid = [] then snd (gapi_createEvent e w x)
                         else snd (gapi_updateEvent e w gid x)
           | _ \<Rightarrow> snd (gapi_createEvent e w x))"
  by (simp add: gapi_syncLocal_def split: jsid.splits prod.splits sum.splits)

lemma gapi_syncLocal_inv:
  "isSignedIn (snd (gapi_syncLocal e w x)) = isSignedIn w
   \<and> set (sent w) \<subseteq> set (sent (snd (gapi_syncLocal e w x)))"
  using gapi_createEvent_inv [of e w x] gapi_updateEvent_inv [of e w _ x]
  by (simp add: gapi_syncLocal_snd split: jsid.splits)

lemma gapi_syncLocals_inv:
  "isSignedIn (snd (gapi_syncLocals e w l)) = isSignedIn w
   \<and> set (sent w) \<subseteq> set (sent (snd (gapi_syncLocals e w l)))"
proof (induction l arbitrary: w)
  case Nil
  then show ?case by simp
next
  case (Cons x l)
  from Cons.IH [of "snd (gapi_syncLocal e w x)"] gapi_syncLocal_inv [of e w x]
  show ?case by (auto simp add: gapi_syncLocals_Cons simp del: gapi_syncLocals.simps)
qed

lemma gapi_syncLocals_length: "length (fst (gapi_syncLocals e w l)) = length l"
  by (induction l arbitrary: w) (simp_all add: gapi_syncLocals_Cons del: gapi_syncLocals.simps(2))

lemma gapi_syncLocals_nth:
  "i < length l \<Longrightarrow>
   fst (gapi_syncLocals e w l) ! i
     = fst (gapi_syncLocal e (snd (gapi_syncLocals e w (take i l))) (l ! i))"
proof (induction l arbitrary: w i)
  case Nil
  then show ?case by simp
next
  case (Cons x l)
  show ?case
  proof (cases i)
    case 0
    then show ?thesis by (simp add: gapi_syncLocals_Cons del: gapi_syncLocals.simps(2))
  next
    case (Suc j)
    with Cons.prems have "j < length l" by simp
    from Cons.IH [OF this, of "snd (gapi_syncLocal e w x)"] Suc show ?thesis
      by (simp add: gapi_syncLocals_Cons del: gapi_syncLocals.simps(2))
  qed
qed

lemma gapi_syncLocal_result:
  "fst (gapi_syncLocal e w x) = x \<or> (\<exists>gid. fst (gapi_syncLocal e w x) = x \<lparr> googleEventId := gid \<rparr>)"
  by (auto simp add: gapi_syncLocal_def split: prod.splits sum.splits jsid.splits)

lemma gapi_syncLocal_failed:
  "\<not> isNote x \<Longrightarrow> \<not> truthy (googleEventId x) \<Longrightarrow> gapi_createEvent e w x = (Inl err, wx) \<Longrightarrow>
   fst (gapi_syncLocal e w x) = x"
  by (simp add: gapi_syncLocal_def)

lemma gapi_syncLocal_attempt:
  "isSignedIn w \<Longrightarrow> \<not> isNote x \<Longrightarrow> \<not> truthy (googleEventId x) \<Longrightarrow>
   sent (snd (gapi_syncLocal e w x)) = sent w @ [gapi_createRequest e x]"
  using gapi_createEvent_sent [of w e x]
  by (auto simp add: gapi_syncLocal_def split: prod.splits sum.splits)

lemma gapi_getEvents_signedIn:
  "isSignedIn (snd (gapi_getEvents e w p)) = isSignedIn w"
  by (auto simp add: gapi_getEvents_def split: prod.splits sum.splits option.splits
      dest!: gapi_request_sent)

lemma gapi_syncEvents_Inr:
  assumes "gapi_syncEvents e w l = (Inr merged, w')"
  shows "isSignedIn (snd (gapi_getEvents e w (syncWindow e)))
    \<and> (\<exists>gs. merged = mergeGoogleEvents (fst (gapi_syncLocals e (snd (gapi_getEvents e w (syncWindow e))) l)) gs)
    \<and> w' = snd (gapi_syncLocals e (snd (gapi_getEvents e w (syncWindow e))) l)"
proof -
  from assms have s: "isSignedIn w"
    by (cases "isSignedIn w") (simp_all add: gapi_syncEvents_def)
  obtain r w1 where g: "gapi_getEvents e w (syncWindow e) = (r, w1)"
    by (cases "gapi_getEvents e w (syncWindow e)")
  from assms s g obtain gs where r: "r = Inr gs"
    by (cases r) (simp_all add: gapi_syncEvents_def)
  from assms s g r have "merged = mergeGoogleEvents (fst (gapi_syncLocals e w1 l)) gs"
    and "w' = snd (gapi_syncLocals e w1 l)"
    by (simp_all add: gapi_syncEvents_def split: prod.splits)
  moreover from s g gapi_getEvents_signedIn [of e w "syncWindow e"] have "isSignedIn w1" by simp
  ultimately show ?thesis using g by auto
qed

lemma gapi_syncLocals_attempt:
  assumes "isSignedIn w" and "i < length l"
    and "\<not> isNote (l ! i)" and "\<not> truthy (googleEventId (l ! i))"
  shows "gapi_createRequest e (l ! i) \<in> set (sent (snd (gapi_syncLocals e w l)))"
proof -
  define wi where "wi = snd (gapi_syncLocals e w (take i l))"
  have l: "l = take i l @ (l ! i) # drop (Suc i) l"
    using assms(2) by (simp add: id_take_nth_drop)
  have si: "isSignedIn wi"
    using gapi_syncLocals_inv [of e w "take i l"] assms(1) by (simp add: wi_def)
  have "snd (gapi_syncLocals e w l)
          = snd (gapi_syncLocals e (snd (gapi_syncLocal e wi (l ! i))) (drop (Suc i) l))"
    by (subst l) (simp add: gapi_syncLocals_append gapi_syncLocals_Cons wi_def
        del: gapi_syncLocals.simps(2))
  moreover have "gapi_createRequest e (l ! i) \<in> set (sent (snd (gapi_syncLocal e wi (l ! i))))"
    using gapi_syncLocal_attempt [OF si assms(3) assms(4), of e] by simp
  ultimately show ?thesis
    using gapi_syncLocals_inv [of e "snd (gapi_syncLocal e wi (l ! i))" "drop (Suc i) l"] by auto
qed

lemma mergeGoogleEvents_nth:
  "i < length syncedEvents \<Longrightarrow> mergeGoogleEvents syncedEvents gs ! i = syncedEvents ! i"
  using mergeGoogleEvents_append [of syncedEvents gs] by (auto simp add: nth_append)

lemma mergeGoogleEvents_length:
  "length syncedEvents \<le> length (mergeGoogleEvents syncedEvents gs)"
  using mergeGoogleEvents_append [of syncedEvents gs] by auto

lemma gapi_syncEvents_keeps_failed:
  assumes "gapi_syncEvents e w l = (Inr merged, w')" and "i < length l"
  shows "i < length merged
    \<and> (merged ! i = l ! i \<or> (\<exists>gid. merged ! i = (l ! i) \<lparr> googleEventId := gid \<rparr>))
    \<and> (\<not> isNote (l ! i) \<and> \<not> truthy (googleEventId (l ! i)) \<longrightarrow>
          gapi_createRequest e (l ! i) \<in> set (sent w')
          \<and> (\<forall>err wx. gapi_createEvent e (gapi_stateAt e w l i) (l ! i) = (Inl err, wx)
                 \<longrightarrow> merged ! i = l ! i))"
proof -
  define w1 where "w1 = snd (gapi_getEvents e w (syncWindow e))"
  from gapi_syncEvents_Inr [OF assms(1)] obtain gs where
    s: "isSignedIn w1" and m: "merged = mergeGoogleEvents (fst (gapi_syncLocals e w1 l)) gs"
    and w': "w' = snd (gapi_syncLocals e w1 l)"
    by (auto simp add: w1_def)
  have len: "i < length (fst (gapi_syncLocals e w1 l))"
    using assms(2) by (simp add: gapi_syncLocals_length)
  have n: "merged ! i = fst (gapi_syncLocal e (gapi_stateAt e w l i) (l ! i))"
    using len assms(2) by (simp add: m mergeGoogleEvents_nth gapi_syncLocals_nth gapi_stateAt_def w1_def)
  have a: "i < length merged"
    using len mergeGoogleEvents_length [of "fst (gapi_syncLocals e w1 l)" gs] by (simp add: m)
  have b: "merged ! i = l ! i \<or> (\<exists>gid. merged ! i = (l ! i) \<lparr> googleEventId := gid \<rparr>)"
    using gapi_syncLocal_result [of e "gapi_stateAt e w l i" "l ! i"] by (simp add: n)
  have c: "gapi_createRequest e (l ! i) \<in> set (sent w')"
    if "\<not> isNote (l ! i)" "\<not> truthy (googleEventId (l ! i))"
    using gapi_syncLocals_attempt [OF s assms(2) that, of e] by (simp add: w')
  have d: "merged ! i = l ! i"
    if "\<not> isNote (l ! i)" "\<not> truthy (googleEventId (l ! i))"
      "gapi_createEvent e (gapi_stateAt e w l i) (l ! i) = (Inl err, wx)" for err wx
    using gapi_syncLocal_failed [OF that] by (simp add: n)
  from a b c d show ?thesis by blast
qed

lemma working_makeRequest_sent:
  "working_makeRequest e w req = (r, w1) \<Longrightarrow>
   accessToken w1 = accessToken w \<and> set (sent w) \<subseteq> set (sent w1)"
  by (auto simp add: working_makeRequest_def fetch_def
      split: option.splits response.splits if_splits)

lemma working_makeRequest_token:
  "accessToken w = Some token \<Longrightarrow> token \<noteq> [] \<Longrightarrow>
   sent (snd (working_makeRequest e w req)) = sent w @ [req \<lparr> bearer := Some token \<rparr>]"
  by (simp add: working_makeRequest_def fetch_def split: response.splits option.splits)

lemma working_makeRequest_Inr:
  "working_makeRequest e w req = (Inr j, w1) \<Longrightarrow>
   \<exists>token. accessToken w1 = Some token \<and> token \<noteq> []"
  by (auto simp add: working_makeRequest_def fetch_def
      split: option.splits if_splits response.splits)

lemma working_createEvent_sent:
  "accessToken w = Some token \<Longrightarrow> token \<noteq> [] \<Longrightarrow>
   sent (snd (working_createEvent e w event)) = sent w @ [working_createRequest e token event]"
  using working_makeRequest_token [of w token e
      "\<lparr> httpMethod = POST, url = eventsUrl, bearer = None,
         body = Some (working_convertToGoogleEvent e event), window = None \<rparr>"]
  by (auto simp add: working_createEvent_def working_createRequest_def Let_def
      split: prod.splits sum.splits)

lemma working_createEvent_inv:
  "accessToken (snd (working_createEvent e w event)) = accessToken w
   \<and> set (sent w) \<subseteq> set (sent (snd (working_createEvent e w event)))"
  by (auto simp add: working_createEvent_def Let_def split: prod.splits sum.splits
      dest!: working_makeRequest_sent)

lemma working_syncLocal_snd:
  "snd (working_syncLocal e w x) =
     (if \<not> truthy (googleEventId x) then snd (working_createEvent e w x) else w)"
  by (simp add: working_syncLocal_def split: prod.splits sum.splits)

lemma working_syncLocal_inv:
  "accessToken (snd (working_syncLocal e w x)) = accessToken w
   \<and> set (sent w) \<subseteq> set (sent (snd (working_syncLocal e w x)))"
  using working_createEvent_inv [of e w x] by (simp add: working_syncLocal_snd)

lemma working_syncLocals_Cons:
  "working_syncLocals e w (x # l) =
     (fst (working_syncLocal e w x) # fst (working_syncLocals e (snd (working_syncLocal e w x)) l),
      snd (working_syncLocals e (snd (working_syncLocal e w x)) l))"
  by (simp split: prod.splits)

lemma working_syncLocals_append:
  "working_syncLocals e w (xs @ ys) =
     (fst (working_syncLocals e w xs) @ fst (working_syncLocals e (snd (working_syncLocals e w xs)) ys),
      snd (working_syncLocals e (snd (working_syncLocals e w xs)) ys))"
  by (induction xs arbitrary: w) (simp_all add: working_syncLocals_Cons del: working_syncLocals.simps(2))

lemma working_syncLocals_inv:
  "accessToken (snd (working_syncLocals e w l)) = accessToken w
   \<and> set (sent w) \<subseteq> set (sent (snd (working_syncLocals e w l)))"
proof (induction l arbitrary: w)
  case Nil
  then show ?case by simp
next
  case (Cons x l)
  from Cons.IH [of "snd (working_syncLocal e w x)"] working_syncLocal_inv [of e w x]
  show ?case by (auto simp add: working_syncLocals_Cons simp del: working_syncLocals.simps)
qed

lemma working_syncLocals_length: "length (fst (working_syncLocals e w l)) = length l"
  by (induction l arbitrary: w) (simp_all add: working_syncLocals_Cons del: working_syncLocals.simps(2))

lemma working_syncLocals_nth:
  "i < length l \<Longrightarrow>
   fst (working_syncLocals e w l) ! i
     = fst (working_syncLocal e (snd (working_syncLocals e w (take i l))) (l ! i))"
proof (induction l arbitrary: w i)
  case Nil
  then show ?case by simp
next
  case (Cons x l)
  show ?case
  proof (cases i)
    case 0
    then show ?thesis by (simp add: working_syncLocals_Cons del: working_syncLocals.simps(2))
  next
    case (Suc j)
    with Cons.prems have "j < length l" by simp
    from Cons.IH [OF this, of "snd (working_syncLocal e w x)"] Suc show ?thesis
      by (simp add: working_syncLocals_Cons del: working_syncLocals.simps(2))
  qed
qed

lemma working_syncLocal_result:
  "fst (working_syncLocal e w x) = x
   \<or> (\<exists>gid. fst (working_syncLocal e w x) = x \<lparr> googleEventId := gid, syncedToGoogle := True \<rparr>)"
  by (auto simp add: working_syncLocal_def split: prod.splits sum.splits)

lemma working_syncLocal_failed:
  "\<not> truthy (googleEventId x) \<Longrightarrow> working_createEvent e w x = (Inl err, wx) \<Longrightarrow>
   fst (working_syncLocal e w x) = x"
  by (simp add: working_syncLocal_def)

lemma working_syncLocals_attempt:
  assumes "accessToken w = Some token" and "token \<noteq> []" and "i < length l"
    and "\<not> truthy (googleEventId (l ! i))"
  shows "working_createRequest e token (l ! i) \<in> set (sent (snd (working_syncLocals e w l)))"
proof -
  define wi where "wi = snd (working_syncLocals e w (take i l))"
  have l: "l = take i l @ (l ! i) # drop (Suc i) l"
    using assms(3) by (simp add: id_take_nth_drop)
  have ti: "accessToken wi = Some token"
    using working_syncLocals_inv [of e w "take i l"] assms(1) by (simp add: wi_def)
  have "snd (working_syncLocals e w l)
          = snd (working_syncLocals e (snd (working_syncLocal e wi (l ! i))) (drop (Suc i) l))"
    by (subst l) (simp add: working_syncLocals_append working_syncLocals_Cons wi_def
        del: working_syncLocals.simps(2))
  moreover have "working_createRequest e token (l ! i) \<in> set (sent (snd (working_syncLocal e wi (l ! i))))"
    using working_createEvent_sent [OF ti assms(2), of e "l ! i"] assms(4)
    by (simp add: working_syncLocal_snd)
  ultimately show ?thesis
    using working_syncLocals_inv [of e "snd (working_syncLocal e wi (l ! i))" "drop (Suc i) l"] by auto
qed

lemma working_getEvents_Inr:
  "working_getEvents e w p = (Inr gs, w1) \<Longrightarrow>
   \<exists>token. accessToken w1 = Some token \<and> token \<noteq> []"
  by (auto simp add: working_getEvents_def split: prod.splits sum.splits option.splits
      dest: working_makeRequest_Inr)

lemma working_syncEvents_Inr:
  assumes "working_syncEvents e w l = (Inr merged, w')"
  shows "(\<exists>token. accessToken (snd (working_getEvents e w (syncWindow e))) = Some token \<and> token \<noteq> [])
    \<and> (\<exists>gs. merged = mergeGoogleEvents (fst (working_syncLocals e (snd (working_getEvents e w (syncWindow e))) l)) gs)
    \<and> w' = snd (working_syncLocals e (snd (working_getEvents e w (syncWindow e))) l)"
proof -
  obtain r w1 where g: "working_getEvents e w (syncWindow e) = (r, w1)"
    by (cases "working_getEvents e w (syncWindow e)")
  from assms g obtain gs where r: "r = Inr gs"
    by (cases r) (simp_all add: working_syncEvents_def)
  from assms g r have "merged = mergeGoogleEvents (fst (working_syncLocals e w1 l)) gs"
    and "w' = snd (working_syncLocals e w1 l)"
    by (simp_all add: working_syncEvents_def split: prod.splits)
  moreover from g r working_getEvents_Inr [of e w "syncWindow e" gs w1]
  have "\<exists>token. accessToken w1 = Some token \<and> token \<noteq> []" by simp
  ultimately show ?thesis using g by auto
qed

lemma working_syncEvents_keeps_failed:
  assumes "working_syncEvents e w l = (Inr merged, w')" and "i < length l"
  shows "i < length merged
    \<and> (merged ! i = l ! i
         \<or> (\<exists>gid. merged ! i = (l ! i) \<lparr> googleEventId := gid, syncedToGoogle := True \<rparr>))
    \<and> (\<not> truthy (googleEventId (l ! i)) \<longrightarrow>
          (\<exists>token. working_createRequest e token (l ! i) \<in> set (sent w'))
          \<and> (\<forall>err wx. working_createEvent e (working_stateAt e w l i) (l ! i) = (Inl err, wx)
                 \<longrightarrow> merged ! i = l ! i))"
proof -
  define w1 where "w1 = snd (working_getEvents e w (syncWindow e))"
  from working_syncEvents_Inr [OF assms(1)] obtain gs token where
    t: "accessToken w1 = Some token" "token \<noteq> []"
    and m: "merged = mergeGoogleEvents (fst (working_syncLocals e w1 l)) gs"
    and w': "w' = snd (working_syncLocals e w1 l)"
    by (auto simp add: w1_def)
  have len: "i < length (fst (working_syncLocals e w1 l))"
    using assms(2) by (simp add: working_syncLocals_length)
  have n: "merged ! i = fst (working_syncLocal e (working_stateAt e w l i) (l ! i))"
    using len assms(2)
    by (simp add: m mergeGoogleEvents_nth working_syncLocals_nth working_stateAt_def w1_def)
  have a: "i < length merged"
    using len mergeGoogleEvents_length [of "fst (working_syncLocals e w1 l)" gs] by (simp add: m)
  have b: "merged ! i = l ! i
       \<or> (\<exists>gid. merged ! i = (l ! i) \<lparr> googleEventId := gid, syncedToGoogle := True \<rparr>)"
    using working_syncLocal_result [of e "working_stateAt e w l i" "l ! i"] by (simp add: n)
  have c: "\<exists>token. working_createRequest e token (l ! i) \<in> set (sent w')"
    if "\<not> truthy (googleEventId (l ! i))"
    using working_syncLocals_attempt [OF t assms(2) that, of e] by (auto simp add: w')
  have d: "merged ! i = l ! i"
    if "\<not> truthy (googleEventId (l ! i))"
      "working_createEvent e (working_stateAt e w l i) (l ! i) = (Inl err, wx)" for err wx
    using working_syncLocal_failed [OF that] by (simp add: n)
  from a b c d show ?thesis by blast
qed

lemma gapi_stateAt_Suc:
  "i < length l \<Longrightarrow>
   gapi_stateAt e w l (Suc i) = snd (gapi_syncLocal e (gapi_stateAt e w l i) (l ! i))"
  by (simp add: gapi_stateAt_def take_Suc_conv_app_nth gapi_syncLocals_append gapi_syncLocals_Cons
      del: gapi_syncLocals.simps(2))

lemma gapi_stateAt_step:
  assumes "gapi_syncEvents e w l = (Inr merged, w')" and "i < length l"
    and "\<not> isNote (l ! i)" and "\<not> truthy (googleEventId (l ! i))"
  shows "sent (gapi_stateAt e w l (Suc i))
           = sent (gapi_stateAt e w l i) @ [gapi_createRequest e (l ! i)]"
proof -
  from gapi_syncEvents_Inr [OF assms(1)]
  have "isSignedIn (snd (gapi_getEvents e w (syncWindow e)))" by simp
  then have "isSignedIn (gapi_stateAt e w l i)"
    using gapi_syncLocals_inv [of e "snd (gapi_getEvents e w (syncWindow e))" "take i l"]
    by (simp add: gapi_stateAt_def)
  from gapi_syncLocal_attempt [OF this assms(3) assms(4), of e] show ?thesis
    by (simp add: gapi_stateAt_Suc [OF assms(2)])
qed

lemma working_stateAt_Suc:
  "i < length l \<Longrightarrow>
   working_stateAt e w l (Suc i) = snd (working_syncLocal e (working_stateAt e w l i) (l ! i))"
  by (simp add: working_stateAt_def take_Suc_conv_app_nth working_syncLocals_append
      working_syncLocals_Cons del: working_syncLocals.simps(2))

lemma working_stateAt_step:
  assumes "working_syncEvents e w l = (Inr merged, w')" and "i < length l"
    and "\<not> truthy (googleEventId (l ! i))"
  shows "\<exists>token. sent (working_stateAt e w l (Suc i))
           = sent (working_stateAt e w l i) @ [working_createRequest e token (l ! i)]"
proof -
  from working_syncEvents_Inr [OF assms(1)] obtain token where
    t: "accessToken (snd (working_getEvents e w (syncWindow e))) = Some token" "token \<noteq> []"
    by blast
  then have "accessToken (working_stateAt e w l i) = Some token"
    using working_syncLocals_inv [of e "snd (working_getEvents e w (syncWindow e))" "take i l"]
    by (simp add: working_stateAt_def)
  from working_createEvent_sent [OF this t(2), of e "l ! i"] assms(3) show ?thesis
    by (auto simp add: working_stateAt_Suc [OF assms(2)] working_syncLocal_snd)
qed

text \<open>
  C7 (amended). When the batch reconciliation returns a list, that is when the service is
  signed in and the list request succeeds, every local item stands in it at its
  own index, unchanged or with only the identifier of a successful call recorded. For a
  local event without \<^verbatim>\<open>googleEventId\<close> the round of the loop for that item sends
  exactly one create request for it, and if that create failed the item stands in the
  result unchanged. This holds for \<^verbatim>\<open>GoogleCalendarService.syncEvents\<close> of
  \<^verbatim>\<open>googleCalendar.ts\<close> and for \<^verbatim>\<open>WorkingGoogleCalendarService.syncEvents\<close>.
\<close>

theorem syncEvents_keeps_failed:
  assumes "i < length l"
  shows "(\<forall>merged w'. gapi_syncEvents e w l = (Inr merged, w') \<longrightarrow>
            i < length merged
          \<and> (merged ! i = l ! i \<or> (\<exists>gid. merged ! i = (l ! i) \<lparr> googleEventId := gid \<rparr>))
          \<and> (\<not> isNote (l ! i) \<and> \<not> truthy (googleEventId (l ! i)) \<longrightarrow>
                sent (gapi_stateAt e w l (Suc i))
                  = sent (gapi_stateAt e w l i) @ [gapi_createRequest e (l ! i)]
              \<and> gapi_createRequest e (l ! i) \<in> set (sent w')
              \<and> (\<forall>err wx. gapi_createEvent e (gapi_stateAt e w l i) (l ! i) = (Inl err, wx)
                     \<longrightarrow> merged ! i = l ! i)))
    \<and> (\<forall>merged w'. working_syncEvents e w l = (Inr merged, w') \<longrightarrow>
            i < length merged
          \<and> (merged ! i = l ! i
               \<or> (\<exists>gid. merged ! i = (l ! i) \<lparr> googleEventId := gid, syncedToGoogle := True \<rparr>))
          \<and> (\<not> truthy (googleEventId (l ! i)) \<longrightarrow>
                (\<exists>token. sent (working_stateAt e w l (Suc i))
                   = sent (working_stateAt e w l i) @ [working_createRequest e token (l ! i)])
              \<and> (\<exists>token. working_createRequest e token (l ! i) \<in> set (sent w'))
              \<and> (\<forall>err wx. working_createEvent e (working_stateAt e w l i) (l ! i) = (Inl err, wx)
                     \<longrightarrow> merged ! i = l ! i)))"
proof (intro conjI allI impI)
  fix merged w'
  assume a: "gapi_syncEvents e w l = (Inr merged, w')"
  note k = gapi_syncEvents_keeps_failed [OF a assms]
  from k show "i < length merged" by blast
  from k show "merged ! i = l ! i \<or> (\<exists>gid. merged ! i = (l ! i) \<lparr> googleEventId := gid \<rparr>)"
    by blast
  assume n: "\<not> isNote (l ! i) \<and> \<not> truthy (googleEventId (l ! i))"
  from gapi_stateAt_step [OF a assms] n
  show "sent (gapi_stateAt e w l (Suc i))
          = sent (gapi_stateAt e w l i) @ [gapi_createRequest e (l ! i)]"
    by blast
  from k n show "gapi_createRequest e (l ! i) \<in> set (sent w')" by blast
  fix err wx
  assume "gapi_createEvent e (gapi_stateAt e w l i) (l ! i) = (Inl err, wx)"
  with k n show "merged ! i = l ! i" by blast
next
  fix merged w'
  assume a: "working_syncEvents e w l = (Inr merged, w')"
  note k = working_syncEvents_keeps_failed [OF a assms]
  from k show "i < length merged" by blast
  from k show "merged ! i = l ! i
      \<or> (\<exists>gid. merged ! i = (l ! i) \<lparr> googleEventId := gid, syncedToGoogle := True \<rparr>)"
    by blast
  assume n: "\<not> truthy (googleEventId (l ! i))"
  from working_stateAt_step [OF a assms n]
  show "\<exists>token. sent (working_stateAt e w l (Suc i))
          = sent (working_stateAt e w l i) @ [working_createRequest e token (l ! i)]" .
  from k n show "\<exists>token. working_createRequest e token (l ! i) \<in> set (sent w')" by blast
  fix err wx
  assume "working_createEvent e (working_stateAt e w l i) (l ! i) = (Inl err, wx)"
  with k n show "merged ! i = l ! i" by blast
qed

lemma gapi_syncEvents_readOnly:
  "fst (gapi_syncEvents readOnly world0 [standup readOnly]) = Inr [standup readOnly]"
  by (simp add: gapi_syncEvents_def gapi_getEvents_def gapi_syncLocal_def gapi_createEvent_def
      gapi_request_def fetch_def readOnly_def utc_def listOnly_def ok_def world0_def Let_def
      standup_def)

lemma gapi_createEvent_readOnly:
  "fst (gapi_createEvent readOnly (gapi_stateAt readOnly world0 [standup readOnly] 0) (standup readOnly))
     = Inl (ApiError 500)"
  by (simp add: gapi_stateAt_def gapi_getEvents_def gapi_createEvent_def
      gapi_request_def fetch_def readOnly_def utc_def listOnly_def ok_def world0_def Let_def)

lemma working_syncEvents_readOnly:
  "fst (working_syncEvents readOnly world0 [standup readOnly]) = Inr [standup readOnly]"
  by (simp add: working_syncEvents_def working_getEvents_def working_syncLocal_def
      working_createEvent_def working_makeRequest_def fetch_def readOnly_def utc_def listOnly_def
      ok_def world0_def Let_def standup_def)

theorem syncEvents_keeps_failed_witness:
  "(0::nat) < length [standup readOnly]
   \<and> \<not> isNote (standup readOnly) \<and> \<not> truthy (googleEventId (standup readOnly))
   \<and> fst (gapi_syncEvents readOnly world0 [standup readOnly]) = Inr [standup readOnly]
   \<and> fst (gapi_createEvent readOnly (gapi_stateAt readOnly world0 [standup readOnly] 0)
            (standup readOnly)) = Inl (ApiError 500)
   \<and> sent (gapi_stateAt readOnly world0 [standup readOnly] (Suc 0))
       = sent (gapi_stateAt readOnly world0 [standup readOnly] 0)
           @ [gapi_createRequest readOnly (standup readOnly)]
   \<and> gapi_createRequest readOnly (standup readOnly)
       \<in> set (sent (snd (gapi_syncEvents readOnly world0 [standup readOnly])))
   \<and> fst (working_syncEvents readOnly world0 [standup readOnly]) = Inr [standup readOnly]
   \<and> (\<exists>token. working_createRequest readOnly token (standup readOnly)
         \<in> set (sent (snd (working_syncEvents readOnly world0 [standup readOnly]))))"
proof -
  have i: "(0::nat) < length [standup readOnly]" by simp
  have p: "gapi_syncEvents readOnly world0 [standup readOnly]
             = (Inr [standup readOnly], snd (gapi_syncEvents readOnly world0 [standup readOnly]))"
    using gapi_syncEvents_readOnly by (simp add: prod_eq_iff)
  have q: "working_syncEvents readOnly world0 [standup readOnly]
             = (Inr [standup readOnly], snd (working_syncEvents readOnly world0 [standup readOnly]))"
    using working_syncEvents_readOnly by (simp add: prod_eq_iff)
  have n: "\<not> isNote (standup readOnly) \<and> \<not> truthy (googleEventId (standup readOnly))"
    by (simp add: standup_def)
  note t = syncEvents_keeps_failed [OF i, of readOnly world0]
  from t p n
  have a: "sent (gapi_stateAt readOnly world0 [standup readOnly] (Suc 0))
       = sent (gapi_stateAt readOnly world0 [standup readOnly] 0)
           @ [gapi_createRequest readOnly (standup readOnly)]"
    and b: "gapi_createRequest readOnly (standup readOnly)
       \<in> set (sent (snd (gapi_syncEvents readOnly world0 [standup readOnly])))"
    by auto
  from t q n
  have c: "\<exists>token. working_createRequest readOnly token (standup readOnly)
         \<in> set (sent (snd (working_syncEvents readOnly world0 [standup readOnly])))"
    by auto
  from i n a b c gapi_syncEvents_readOnly gapi_createEvent_readOnly working_syncEvents_readOnly
  show ?thesis by blast
qed

text \<open>
  C7 as stated fails: when the list request fails, or the service is not signed in,
  \<^verbatim>\<open>syncEvents\<close> throws before its loop. No create is attempted for the local event
  without identifier, and no list is returned.
\<close>

theorem syncEvents_list_failure_counterexample:
  "\<not> isNote (standup down) \<and> \<not> truthy (googleEventId (standup down))
   \<and> fst (gapi_syncEvents down world0 [standup down]) = Inl (ApiError 500)
   \<and> map httpMethod (sent (snd (gapi_syncEvents down world0 [standup down]))) = [GET]
   \<and> fst (working_syncEvents down world0 [standup down]) = Inl (ApiError 500)
   \<and> map httpMethod (sent (snd (working_syncEvents down world0 [standup down]))) = [GET]
   \<and> gapi_syncEvents utc (world0 \<lparr> isSignedIn := False \<rparr>) [standup utc]
       = (Inl NotAuthenticated, world0 \<lparr> isSignedIn := False \<rparr>)"
  by code_simp

section \<open>Reading remote events back\<close>

lemma Day_local_time:
  "0 \<le> s \<Longrightarrow> s < msPerDay \<Longrightarrow> Day (n * msPerDay + s) = n \<and> TimeWithinDay (n * msPerDay + s) = s"
  by (simp add: Day_def TimeWithinDay_def msPerDay_def)

lemma newDateLocal_midnight:
  "Day (LocalTime e (newDateLocal e d (0, 0, 0))) = days_from_civil d
   \<and> TimeWithinDay (LocalTime e (newDateLocal e d (0, 0, 0))) = 0"
  using Day_local_time [of 0 "days_from_civil d"]
  by (simp add: LocalTime_newDateLocal msPerDay_def)

lemma newDateLocal_last_second:
  "Day (LocalTime e (newDateLocal e d (23, 59, 59))) = days_from_civil d
   \<and> TimeWithinDay (LocalTime e (newDateLocal e d (23, 59, 59))) = 86399000"
  using Day_local_time [of 86399000 "days_from_civil d"]
  by (simp add: LocalTime_newDateLocal msPerDay_def)

lemma gapi_updateEvent_requests:
  "req \<in> set (sent (snd (gapi_updateEvent e w gid event))) \<Longrightarrow> req \<notin> set (sent w) \<Longrightarrow>
   httpMethod req = PUT"
  by (auto simp add: gapi_updateEvent_def Let_def split: prod.splits sum.splits if_splits
      dest!: gapi_request_sent)

lemma updateEvent_requests:
  "req \<in> set (sent (snd (updateEvent e w event))) \<Longrightarrow> req \<notin> set (sent w) \<Longrightarrow>
   httpMethod req = PATCH"
proof (cases "googleEventId event")
  case (Str gid)
  assume a: "req \<in> set (sent (snd (updateEvent e w event)))" "req \<notin> set (sent w)"
  from updateEvent_sent_cases [OF Str, of e w] a show ?thesis
    by (auto simp add: updateRequest_def)
qed (simp_all add: updateEvent_def)

text \<open>
  C10. The item built from a fetched remote event is all-day exactly when the remote
  start is date-only. A date-only start becomes the first instant of that date in local
  time, and a date-only end becomes 23:59:59 of the remote end date itself, which is the
  exclusive end: no day is taken off. The item carries the remote identifier as
  \<^verbatim>\<open>googleEventId\<close> and is marked as synced, so for a non-empty identifier a later
  reconciliation or sync sends no create for it: the popup service sends nothing, the
  \<^verbatim>\<open>gapi\<close> service only an update, the single-item sync only an update.
\<close>

theorem convertFromGoogleEvent_linked:
  "allDay (convertFromGoogleEvent e g) = (\<exists>d. r_start g = DateOnly d)
   \<and> (\<forall>d. r_start g = DateOnly d \<longrightarrow>
          Day (LocalTime e (start (convertFromGoogleEvent e g))) = days_from_civil d
        \<and> TimeWithinDay (LocalTime e (start (convertFromGoogleEvent e g))) = 0)
   \<and> (\<forall>d. r_end g = DateOnly d \<longrightarrow>
          Day (LocalTime e (end' (convertFromGoogleEvent e g))) = days_from_civil d
        \<and> TimeWithinDay (LocalTime e (end' (convertFromGoogleEvent e g))) = 86399000)
   \<and> googleEventId (convertFromGoogleEvent e g) = Str (r_id g)
   \<and> syncedToGoogle (convertFromGoogleEvent e g)
   \<and> (r_id g \<noteq> [] \<longrightarrow>
          working_syncLocal e w (convertFromGoogleEvent e g) = (convertFromGoogleEvent e g, w)
        \<and> (\<forall>req \<in> set (sent (snd (gapi_syncLocal e w (convertFromGoogleEvent e g)))) - set (sent w).
              httpMethod req = PUT)
        \<and> (\<forall>req \<in> set (sent (snd (syncEvent e w (convertFromGoogleEvent e g)))) - set (sent w).
              httpMethod req = PATCH))"
proof -
  let ?c = "convertFromGoogleEvent e g"
  have gid: "googleEventId ?c = Str (r_id g)" by (rule convertFromGoogleEvent_id)
  have a: "allDay ?c = (\<exists>d. r_start g = DateOnly d)"
    by (cases "r_start g") (auto simp add: convertFromGoogleEvent_def Let_def)
  have b: "Day (LocalTime e (start ?c)) = days_from_civil d
        \<and> TimeWithinDay (LocalTime e (start ?c)) = 0" if "r_start g = DateOnly d" for d
    using that newDateLocal_midnight [of e d] by (simp add: convertFromGoogleEvent_def Let_def)
  have c: "Day (LocalTime e (end' ?c)) = days_from_civil d
        \<and> TimeWithinDay (LocalTime e (end' ?c)) = 86399000" if "r_end g = DateOnly d" for d
    using that newDateLocal_last_second [of e d] by (simp add: convertFromGoogleEvent_def Let_def)
  have s: "syncedToGoogle ?c" by (simp add: convertFromGoogleEvent_def Let_def)
  have n: "isNote ?c = False" by (simp add: convertFromGoogleEvent_def Let_def)
  have w: "working_syncLocal e w ?c = (?c, w)" if "r_id g \<noteq> []"
    using that by (simp add: working_syncLocal_def gid)
  have g: "httpMethod req = PUT"
    if "r_id g \<noteq> []" "req \<in> set (sent (snd (gapi_syncLocal e w ?c))) - set (sent w)" for req
    using that gapi_updateEvent_requests [of req e w "r_id g" ?c]
    by (simp add: gapi_syncLocal_snd gid n)
  have p: "httpMethod req = PATCH"
    if "r_id g \<noteq> []" "req \<in> set (sent (snd (syncEvent e w ?c))) - set (sent w)" for req
    using that updateEvent_requests [of req e w ?c]
    by (auto simp add: syncEvent_linked gid split: prod.splits sum.splits)
  from a b c gid s w g p show ?thesis by blast
qed

lemma days_from_civil_holiday: "days_from_civil (2024, 6, 4) = 19878"
  by code_simp

theorem convertFromGoogleEvent_linked_witness:
  "r_start remoteHoliday = DateOnly (2024, 6, 1) \<and> r_end remoteHoliday = DateOnly (2024, 6, 4)
   \<and> r_id remoteHoliday \<noteq> []
   \<and> allDay (convertFromGoogleEvent kolkata remoteHoliday)
   \<and> civil_from_days (Day (LocalTime kolkata (end' (convertFromGoogleEvent kolkata remoteHoliday))))
       = (2024, 6, 4)
   \<and> working_syncLocal kolkata world0 (convertFromGoogleEvent kolkata remoteHoliday)
       = (convertFromGoogleEvent kolkata remoteHoliday, world0)"
  using convertFromGoogleEvent_linked [of kolkata remoteHoliday world0]
  by (simp add: remoteHoliday_def days_from_civil_holiday civil_from_days_examples)

text \<open>
  The all-day item of the scenario ends on 2024-06-03; its remote form ends on 2024-06-04,
  and the item read back from that remote form ends on 2024-06-04 as well.
\<close>

lemma allDay_roundtrip_end:
  "civil_from_days (Day (LocalTime e (end' (vacation e)))) = (2024, 6, 3)"
  "gend (convertToGoogleEvent e (vacation e)) = r_end remoteHoliday"
  "civil_from_days (Day (LocalTime e (end' (convertFromGoogleEvent e remoteHoliday)))) = (2024, 6, 4)"
  using newDateLocal_last_second [of e "(2024, 6, 4)"]
  by (simp_all add: vacation_local_dates convertToGoogleEvent_vacation remoteHoliday_def
      convertFromGoogleEvent_def Let_def days_from_civil_holiday civil_from_days_examples)

section \<open>Validation in the editor\<close>

lemma validateEventTimes_timed:
  "\<not> f_isNote f \<Longrightarrow> \<not> f_allDay f \<Longrightarrow>
   validateEventTimes e f = (startDateTime e f < endDateTime e f)"
  by (auto simp add: validateEventTimes_def startDateTime_def endDateTime_def Let_def)

text \<open>
  C9 (amended). A submitted event that is not all-day and whose end is before or equal to
  its start is rejected by the validation: the handler reports a failure, and the local
  store, the requests sent and the rest of the state are exactly as before. An all-day
  event is not validated.
\<close>

theorem handleSubmit_rejects_timed:
  assumes "\<not> f_isNote f" and "\<not> f_allDay f" and "endDateTime e f \<le> startDateTime e f"
  shows "snd (handleSubmit e w f) = w
    \<and> (fst (handleSubmit e w f) = Failure ''Please enter a title''
         \<or> fst (handleSubmit e w f) = Failure ''End time must be after start time'')"
  using assms validateEventTimes_timed [of f e]
  by (simp add: handleSubmit_def)

lemma backwardsMeeting_times:
  "endDateTime utc backwardsMeeting \<le> startDateTime utc backwardsMeeting"
  by (simp add: endDateTime_def startDateTime_def backwardsMeeting_def newDateLocal_def UTC_def)

theorem handleSubmit_rejects_timed_witness:
  "\<not> f_isNote backwardsMeeting \<and> \<not> f_allDay backwardsMeeting
   \<and> endDateTime utc backwardsMeeting \<le> startDateTime utc backwardsMeeting
   \<and> snd (handleSubmit utc world0 backwardsMeeting) = world0
   \<and> fst (handleSubmit utc world0 backwardsMeeting) = Failure ''End time must be after start time''"
proof -
  have a: "\<not> f_isNote backwardsMeeting" "\<not> f_allDay backwardsMeeting"
    by (simp_all add: backwardsMeeting_def)
  have t: "trim (f_title backwardsMeeting) \<noteq> []"
    by (simp add: backwardsMeeting_def trim_def isSpace_def)
  have v: "\<not> validateEventTimes utc backwardsMeeting"
    using validateEventTimes_timed [OF a, of utc] backwardsMeeting_times by simp
  have r: "fst (handleSubmit utc world0 backwardsMeeting) = Failure ''End time must be after start time''"
    using a t v by (simp add: handleSubmit_def)
  from handleSubmit_rejects_timed [OF a backwardsMeeting_times, of world0] a r backwardsMeeting_times
  show ?thesis by simp
qed

text \<open>
  C9 as stated fails: an all-day event whose end date lies before its start date passes
  the validation; its document is written to the local store and a create is sent.
\<close>

theorem handleSubmit_allDay_counterexample:
  "\<not> f_isNote backwardsTrip
   \<and> endDateTime utc backwardsTrip < startDateTime utc backwardsTrip
   \<and> fst (handleSubmit utc world0 backwardsTrip) = Success ''Event created successfully''
   \<and> map fst (eventsCollection (snd (handleSubmit utc world0 backwardsTrip))) = [''d'']
   \<and> map httpMethod (sent (snd (handleSubmit utc world0 backwardsTrip))) = [POST]"
  by code_simp

section \<open>The life of an item\<close>

text \<open>
  An event saved in the editor with a token at hand is created remotely and its document
  records the identifier; the sync of the dashboard then updates it.
\<close>

lemma saved_then_synced:
  "map (\<lambda>kv. d_googleEventId (snd kv)) (eventsCollection savedOnline) = [Some ''g1'']"
  "map httpMethod (sent savedOnline) = [POST]"
  "map httpMethod (sent (snd (handleSyncCalendar utc savedOnline (eventsList savedOnline))))
     = [POST, PATCH]"
  by code_simp+

text \<open>
  An event saved without a token has no identifier. The sync of the dashboard creates it
  remotely and drops the identifier that comes back, so the next sync creates it again.
\<close>

lemma synced_twice_unrecorded:
  "map (\<lambda>kv. d_googleEventId (snd kv)) (eventsCollection savedOffline) = [None]"
  "map httpMethod (sent savedOffline) = []"
  "map httpMethod (sent syncedOnce) = [POST]"
  "map (\<lambda>kv. d_googleEventId (snd kv)) (eventsCollection syncedOnce) = [None]"
  "map httpMethod (sent (snd (handleSyncCalendar utc syncedOnce (eventsList syncedOnce))))
     = [POST, POST]"
  by code_simp+

end
